theory Spec2Isabelle
  imports Main
begin

section \<open>Data model\<close>

text \<open>
  The access-control and audit core of the file-sharing platform: the server actions of
  \<^verbatim>\<open>src/actions/files.ts\<close>, the user actions (login, user management), the
  session helpers of \<^verbatim>\<open>src/lib/auth.ts\<close> and the file route
  \<^verbatim>\<open>src/app/api/files/[...filepath]/route.ts\<close>, over the SQLite schema of the
  database module.

  Conventions of the embedding.
  \<^item> A table is the list of its rows, in insertion order; \<^verbatim>\<open>SELECT ... .get()\<close> is
    \<^const>\<open>find\<close>, \<^verbatim>\<open>DELETE\<close> is \<^const>\<open>filter\<close>, \<^verbatim>\<open>UPDATE\<close> is \<^const>\<open>map\<close>.
  \<^item> Strings are lists of 8-bit characters; the text handled is ASCII.
  \<^item> The columns \<^verbatim>\<open>role\<close> and \<^verbatim>\<open>status\<close> are datatypes: every statement that
    writes them takes its value from a zod enum that has been applied or from a literal.
    The column \<^verbatim>\<open>visibility\<close> is the stored text: the actions write the string they
    receive (\<^verbatim>\<open>FileUploadSchema\<close> is declared and never applied).
  \<^item> Instants (\<^verbatim>\<open>expires_at\<close>, \<^verbatim>\<open>CURRENT_TIMESTAMP\<close>, \<^verbatim>\<open>Date.now()\<close>) are
    integers, milliseconds since the epoch; numbers are integers (JavaScript's doubles
    agree with them below \<open>2 ^ 53\<close>).
  \<^item> A log row keeps the acting user, the address, the action label, the category
    (column \<^verbatim>\<open>type\<close>) and the resource id; the generated id and timestamp and the
    free-text \<^verbatim>\<open>details\<close> column are left out, as are console output and
    \<^verbatim>\<open>revalidatePath\<close>.
  \<^item> An \<^verbatim>\<open>INSERT INTO logs\<close> can raise: the field \<open>ledger_rejects\<close> of the
    state says for which rows it does. Every other statement on the database succeeds.
\<close>

datatype role = RoleUser | RoleAdmin

datatype status = Active | Inactive

record user =
  u_id :: nat
  username :: string
  email :: string
  password_hash :: string
  role :: role
  status :: status

record session =
  session_id :: string
  s_user_id :: nat
  expires_at :: int
  created_at :: int
  last_accessed_at :: int
  s_ip_address :: string
  s_user_agent :: string

record file_record =
  f_id :: nat
  f_name :: string
  f_type :: "string option"
  f_size :: nat
  upload_date :: int
  uploader_id :: "nat option"
  visibility :: string
  f_path :: string

record log_entry =
  l_user_id :: "nat option"
  l_ip_address :: string
  l_action :: string
  l_type :: string
  l_resource_id :: "nat option"

text \<open>The state of the upload directory as \<^verbatim>\<open>fs.access\<close> and \<^verbatim>\<open>fs.mkdir\<close> see it.\<close>

datatype dir_state = DirPresent | DirMissing | DirUncreatable | DirInaccessible

record state =
  users :: "user list"
  sessions :: "session list"
  files :: "file_record list"
  logs :: "log_entry list"
  settings :: "(string \<times> string) list"
  notifications :: "nat list"
  user_seq :: nat
  file_seq :: nat
  ledger_rejects :: "log_entry \<Rightarrow> bool"
  disk :: "string \<Rightarrow> string option"
  io_denied :: "string \<Rightarrow> bool"
  uploads_dir :: dir_state

text \<open>
  What a request carries (cookie and headers) and what the runtime draws for it: the
  clock and the output of \<^verbatim>\<open>crypto.randomBytes(..).toString('hex')\<close>.
\<close>

record request =
  session_cookie :: "string option"
  cf_connecting_ip :: "string option"
  x_forwarded_for :: "string option"
  x_real_ip :: "string option"
  user_agent :: "string option"
  now :: int
  random_hex :: string

text \<open>
  The process and the libraries the code calls: the working directory, SHA-256 as a
  hexadecimal digest, the \<^verbatim>\<open>mime-types\<close> lookup, zod's e-mail check and
  \<^verbatim>\<open>encodeURIComponent\<close>.
\<close>

record env =
  process_cwd :: string
  sha256_hex :: "string \<Rightarrow> string"
  mime_lookup :: "string \<Rightarrow> string option"
  valid_email :: "string \<Rightarrow> bool"
  encodeURIComponent :: "string \<Rightarrow> string"

text \<open>
  A server action returns \<^verbatim>\<open>{ success: true, ... }\<close> or
  \<^verbatim>\<open>{ success: false, error }\<close>, or lets an exception escape to its caller.
\<close>

datatype error =
    AuthenticationRequired
  | NoFileProvided
  | FileSizeExceeds "int option"
  | FileTypeNotAllowed string
  | UploadFailed
  | FileNotFound
  | PermissionDenied
  | VisibilityUpdateFailed
  | DeleteFailed
  | AccessDenied
  | FileDataMissing
  | DownloadFailed
  | PreviewFailed
  | ListFailed
  | InvalidInput
  | InvalidCredentials
  | AccountInactive
  | UnderMaintenance
  | InternalServerError
  | InvalidData
  | NameOrEmailInUse
  | UsernameInUse
  | EmailInUse
  | CreateUserFailed
  | CannotDeactivateSelf
  | TargetUserNotFound
  | StatusNotChanged
  | StatusUpdateFailed
  | PasswordNotUpdated
  | PasswordResetFailed
  | NoChangesProvided
  | CannotChangeOwnRole
  | CannotChangeSeedAdminRole
  | NoValidChanges
  | ProfileUpdateFailed
  | CannotDeleteSelf
  | CannotDeleteSeedAdmin
  | UserDeleteFailed
  | UserNotFound
  | CurrentPasswordRequired
  | IncorrectCurrentPassword
  | NewPasswordTooShort int
  | OwnProfileUpdateUnexpected
  | OwnProfileUpdateFailed
  | LogoutFailed

datatype 'a reply = Success 'a | Failure error

datatype 'a outcome = Returned 'a | Threw

section \<open>Helpers shared by the actions\<close>

definition log_row :: "nat option \<Rightarrow> string \<Rightarrow> string \<Rightarrow> string \<Rightarrow> nat option \<Rightarrow> log_entry" where
  "log_row uid ip act ty res =
     \<lparr>l_user_id = uid, l_ip_address = ip, l_action = act, l_type = ty, l_resource_id = res\<rparr>"

text \<open>\<^verbatim>\<open>db.prepare('INSERT INTO logs ...').run(...)\<close>: \<open>None\<close> when the statement raises.\<close>

definition log_write :: "log_entry \<Rightarrow> state \<Rightarrow> state option" where
  "log_write e s = (if ledger_rejects s e then None else Some (s\<lparr>logs := logs s @ [e]\<rparr>))"

text \<open>
  A log write inside a \<^verbatim>\<open>try\<close> block, followed by \<^verbatim>\<open>return v\<close>: \<open>None\<close> in the
  first component is the exception on its way to the \<^verbatim>\<open>catch\<close>.
\<close>

definition logged :: "log_entry \<Rightarrow> state \<Rightarrow> 'a \<Rightarrow> 'a option \<times> state" where
  "logged e s v = (case log_write e s of None \<Rightarrow> (None, s) | Some s' \<Rightarrow> (Some v, s'))"

text \<open>
  The \<^verbatim>\<open>catch\<close> block shared by the actions: it writes one log row, outside any
  further handler, and returns the fallback reply.
\<close>

definition catch_log :: "'a option \<times> state \<Rightarrow> log_entry \<Rightarrow> 'a \<Rightarrow> 'a outcome \<times> state" where
  "catch_log r e fallback =
     (case r of
        (Some v, s') \<Rightarrow> (Returned v, s')
      | (None, s') \<Rightarrow>
          (case log_write e s' of
             None \<Rightarrow> (Threw, s')
           | Some s'' \<Rightarrow> (Returned fallback, s'')))"

definition truthy :: "string option \<Rightarrow> bool" where
  "truthy v = (case v of None \<Rightarrow> False | Some x \<Rightarrow> x \<noteq> [])"

definition getIpAddress :: "request \<Rightarrow> string" where
  "getIpAddress rq =
     (case cf_connecting_ip rq of
        Some a \<Rightarrow> if a \<noteq> [] then a else
          (case x_forwarded_for rq of
             Some b \<Rightarrow> if b \<noteq> [] then b else
               (case x_real_ip rq of Some c \<Rightarrow> if c \<noteq> [] then c else ''::1'' | None \<Rightarrow> ''::1'')
           | None \<Rightarrow>
               (case x_real_ip rq of Some c \<Rightarrow> if c \<noteq> [] then c else ''::1'' | None \<Rightarrow> ''::1''))
      | None \<Rightarrow>
          (case x_forwarded_for rq of
             Some b \<Rightarrow> if b \<noteq> [] then b else
               (case x_real_ip rq of Some c \<Rightarrow> if c \<noteq> [] then c else ''::1'' | None \<Rightarrow> ''::1'')
           | None \<Rightarrow>
               (case x_real_ip rq of Some c \<Rightarrow> if c \<noteq> [] then c else ''::1'' | None \<Rightarrow> ''::1'')))"

text \<open>
  \<^verbatim>\<open>expires_at > CURRENT_TIMESTAMP\<close> in SQLite compares two texts: the stored
  \<^verbatim>\<open>toISOString()\<close> value, \<^verbatim>\<open>YYYY-MM-DDTHH:MM:SS.sssZ\<close>, and
  \<^verbatim>\<open>YYYY-MM-DD HH:MM:SS\<close> (years of four digits). The dates decide; on the same UTC day the letter
  \<^verbatim>\<open>T\<close> is greater than the space, so the session counts as unexpired until the day
  of its expiry is over.
\<close>

definition utc_day :: "int \<Rightarrow> int" where
  "utc_day t = t div 86400000"

definition unexpired :: "int \<Rightarrow> int \<Rightarrow> bool" where
  "unexpired current expiry = (utc_day current \<le> utc_day expiry)"

text \<open>
  \<^verbatim>\<open>getUserIdFromSession\<close> (files.ts) and \<^verbatim>\<open>validateSessionAndGetUserId\<close>
  (route.ts): the same query, \<^verbatim>\<open>WHERE session_id = ? AND expires_at > CURRENT_TIMESTAMP\<close>.
\<close>

definition getUserIdFromSession :: "request \<Rightarrow> state \<Rightarrow> nat option" where
  "getUserIdFromSession rq s =
     (case session_cookie rq of
        None \<Rightarrow> None
      | Some sid \<Rightarrow>
          if sid = [] then None
          else map_option s_user_id
                 (find (\<lambda>x. session_id x = sid \<and> unexpired (now rq) (expires_at x))
                    (sessions s)))"

definition getUserRole :: "nat \<Rightarrow> state \<Rightarrow> role option" where
  "getUserRole userId s = map_option role (find (\<lambda>u. u_id u = userId) (users s))"

definition getSetting :: "string \<Rightarrow> string \<Rightarrow> state \<Rightarrow> string" where
  "getSetting k defaultValue s =
     (case map_of (settings s) k of None \<Rightarrow> defaultValue | Some v \<Rightarrow> v)"

section \<open>Credentials and sessions (auth.ts)\<close>

definition hashPassword :: "env \<Rightarrow> string \<Rightarrow> string" where
  "hashPassword e password = sha256_hex e password"

text \<open>
  \<^verbatim>\<open>crypto.timingSafeEqual\<close> raises a RangeError when its two buffers differ in
  length (\<open>None\<close>), and compares them otherwise.
\<close>

definition timingSafeEqual :: "string \<Rightarrow> string \<Rightarrow> bool option" where
  "timingSafeEqual a b = (if length a \<noteq> length b then None else Some (a = b))"

definition verifyPassword :: "env \<Rightarrow> string \<Rightarrow> string \<Rightarrow> bool option" where
  "verifyPassword e password storedHash = timingSafeEqual (hashPassword e password) storedHash"

text \<open>\<^verbatim>\<open>verifySession\<close>, at the instant \<open>t\<close> that \<^verbatim>\<open>new Date()\<close> returns.\<close>

definition verifySession :: "int \<Rightarrow> string \<Rightarrow> state \<Rightarrow> nat option \<times> state" where
  "verifySession t sessionId s =
     (if sessionId = [] then (None, s)
      else
        (case find (\<lambda>x. session_id x = sessionId) (sessions s) of
           None \<Rightarrow> (None, s)
         | Some ses \<Rightarrow>
             if expires_at ses < t
             then (None, s\<lparr>sessions := filter (\<lambda>x. session_id x \<noteq> sessionId) (sessions s)\<rparr>)
             else (Some (s_user_id ses), s)))"

section \<open>Strings and paths\<close>

text \<open>The JavaScript string methods the actions use, on ASCII text.\<close>

definition startsWith :: "string \<Rightarrow> string \<Rightarrow> bool" where
  "startsWith s p = (take (length p) s = p)"

fun split_on :: "char \<Rightarrow> string \<Rightarrow> string list" where
  "split_on c [] = [[]]"
| "split_on c (x # xs) =
     (if x = c then [] # split_on c xs
      else (case split_on c xs of [] \<Rightarrow> [[x]] | y # ys \<Rightarrow> (x # y) # ys))"

fun join_with :: "string \<Rightarrow> string list \<Rightarrow> string" where
  "join_with sep [] = []"
| "join_with sep [x] = x"
| "join_with sep (x # y # ys) = x @ sep @ join_with sep (y # ys)"

definition is_space :: "char \<Rightarrow> bool" where
  "is_space c = (c \<in> {CHR '' '', CHR 0x09, CHR 0x0A, CHR 0x0B, CHR 0x0C, CHR 0x0D})"

definition trim :: "string \<Rightarrow> string" where
  "trim s = rev (dropWhile is_space (rev (dropWhile is_space s)))"

definition lower_char :: "char \<Rightarrow> char" where
  "lower_char c =
     (if (65::nat) \<le> of_char c \<and> of_char c \<le> (90::nat) then char_of (of_char c + (32::nat)) else c)"

definition toLowerCase :: "string \<Rightarrow> string" where
  "toLowerCase s = map lower_char s"

definition is_digit :: "char \<Rightarrow> bool" where
  "is_digit c = ((48::nat) \<le> of_char c \<and> of_char c \<le> (57::nat))"

fun digits_value :: "nat \<Rightarrow> string \<Rightarrow> nat" where
  "digits_value acc [] = acc"
| "digits_value acc (c # cs) = digits_value (10 * acc + (of_char c - 48)) cs"

text \<open>
  \<^verbatim>\<open>parseInt(s, 10)\<close>: leading white space, an optional sign, then the longest run of
  digits; \<open>None\<close> is NaN.
\<close>

definition parseInt :: "string \<Rightarrow> int option" where
  "parseInt s =
     (let t = dropWhile is_space s;
          neg = (t \<noteq> [] \<and> hd t = CHR ''-'');
          u = (if t \<noteq> [] \<and> (hd t = CHR ''-'' \<or> hd t = CHR ''+'') then tl t else t);
          ds = takeWhile is_digit u
      in if ds = [] then None
         else Some (if neg then - int (digits_value 0 ds) else int (digits_value 0 ds)))"

fun decimal :: "nat \<Rightarrow> string" where
  "decimal n =
     (if n < 10 then [char_of (48 + n)] else decimal (n div 10) @ [char_of (48 + n mod 10)])"

declare decimal.simps [simp del]

text \<open>\<^verbatim>\<open>name.replace(/[^a-zA-Z0-9_.-]/g, '_')\<close>.\<close>

definition safe_char :: "char \<Rightarrow> bool" where
  "safe_char c =
     (is_digit c \<or> ((65::nat) \<le> of_char c \<and> of_char c \<le> (90::nat))
      \<or> ((97::nat) \<le> of_char c \<and> of_char c \<le> (122::nat))
      \<or> c = CHR ''_'' \<or> c = CHR ''.'' \<or> c = CHR ''-'')"

definition sanitize :: "string \<Rightarrow> string" where
  "sanitize name = map (\<lambda>c. if safe_char c then c else CHR ''_'') name"

text \<open>
  Node's \<^verbatim>\<open>path\<close> module on POSIX. \<open>norm_segs\<close> is its \<^verbatim>\<open>normalizeString\<close> on
  the segments between slashes: empty and \<^verbatim>\<open>.\<close> segments are dropped, \<^verbatim>\<open>..\<close> removes
  the segment before it, and is kept only where the path may climb above its start.
\<close>

fun norm_segs :: "bool \<Rightarrow> string list \<Rightarrow> string list \<Rightarrow> string list" where
  "norm_segs climb acc [] = rev acc"
| "norm_segs climb acc (seg # segs) =
     (if seg = [] \<or> seg = ''.'' then norm_segs climb acc segs
      else if seg = ''..'' then
        (case acc of
           [] \<Rightarrow> norm_segs climb (if climb then [''..''] else []) segs
         | a # as \<Rightarrow>
             if a \<noteq> ''..'' then norm_segs climb as segs
             else norm_segs climb (if climb then ''..'' # acc else acc) segs)
      else norm_segs climb (seg # acc) segs)"

definition path_normalize :: "string \<Rightarrow> string" where
  "path_normalize p =
     (if p = [] then ''.''
      else
        (let isAbsolute = (hd p = CHR ''/'');
             trailingSeparator = (last p = CHR ''/'');
             q = join_with ''/'' (norm_segs (\<not> isAbsolute) [] (split_on (CHR ''/'') p))
         in if q = [] then (if isAbsolute then ''/'' else if trailingSeparator then ''./'' else ''.'')
            else (if isAbsolute then ''/'' else []) @ q @ (if trailingSeparator then ''/'' else [])))"

definition path_join :: "string list \<Rightarrow> string" where
  "path_join args =
     (let joined = join_with ''/'' (filter (\<lambda>a. a \<noteq> []) args)
      in if joined = [] then ''.'' else path_normalize joined)"

text \<open>
  \<^verbatim>\<open>path.resolve\<close> reads its arguments from the right until one is absolute, and
  falls back on the working directory of the process.
\<close>

fun resolve_raw :: "string list \<Rightarrow> string \<Rightarrow> string" where
  "resolve_raw [] acc = acc"
| "resolve_raw (p # ps) acc =
     (if p = [] then resolve_raw ps acc
      else if hd p = CHR ''/'' then p @ ''/'' @ acc
      else resolve_raw ps (p @ ''/'' @ acc))"

definition path_resolve :: "env \<Rightarrow> string list \<Rightarrow> string" where
  "path_resolve e args =
     (let raw = resolve_raw (rev (process_cwd e # args)) [];
          resolvedAbsolute = (raw \<noteq> [] \<and> hd raw = CHR ''/'');
          q = join_with ''/'' (norm_segs (\<not> resolvedAbsolute) [] (split_on (CHR ''/'') raw))
      in if resolvedAbsolute then CHR ''/'' # q else if q = [] then ''.'' else q)"

definition path_extname :: "string \<Rightarrow> string" where
  "path_extname p =
     (let stripped = dropWhile (\<lambda>c. c = CHR ''/'') (rev p);
          rbase = takeWhile (\<lambda>c. c \<noteq> CHR ''/'') stripped;
          rext = takeWhile (\<lambda>c. c \<noteq> CHR ''.'') rbase;
          pre = rev (drop (Suc (length rext)) rbase)
      in if CHR ''.'' \<notin> set rbase then []
         else if pre = [] then []
         else if pre = ''.'' \<and> rext = [] then []
         else CHR ''.'' # rev rext)"

section \<open>The file system\<close>

text \<open>
  \<open>disk\<close> maps an absolute path to the bytes stored there; on a path in \<open>io_denied\<close>
  reading, writing and unlinking fail with an error other than ENOENT.
\<close>

datatype 'a io = Done 'a | Enoent | IoError

definition fs_unlink :: "string \<Rightarrow> state \<Rightarrow> state io" where
  "fs_unlink p s =
     (case disk s p of
        None \<Rightarrow> Enoent
      | Some b \<Rightarrow> if io_denied s p then IoError else Done (s\<lparr>disk := (disk s)(p := None)\<rparr>))"

definition fs_writeFile :: "string \<Rightarrow> string \<Rightarrow> state \<Rightarrow> state io" where
  "fs_writeFile p bytes s =
     (if io_denied s p then IoError else Done (s\<lparr>disk := (disk s)(p \<mapsto> bytes)\<rparr>))"

definition fs_readFile :: "string \<Rightarrow> state \<Rightarrow> string io" where
  "fs_readFile p s =
     (case disk s p of
        None \<Rightarrow> Enoent
      | Some b \<Rightarrow> if io_denied s p then IoError else Done b)"

text \<open>
  \<^verbatim>\<open>ensureUploadDir\<close>: nothing to do when the directory is there, \<^verbatim>\<open>mkdir\<close> when it
  is missing, and an exception (\<open>None\<close>) when it cannot be made or reached.
\<close>

definition ensureUploadDir :: "state \<Rightarrow> state option" where
  "ensureUploadDir s =
     (case uploads_dir s of
        DirPresent \<Rightarrow> Some s
      | DirMissing \<Rightarrow> Some (s\<lparr>uploads_dir := DirPresent\<rparr>)
      | DirUncreatable \<Rightarrow> None
      | DirInaccessible \<Rightarrow> None)"

section \<open>File actions (files.ts)\<close>

datatype message =
    FileUploaded
  | VisibilityAlreadySet
  | VisibilityChanged string
  | FileDeleted

record upload =
  up_name :: string
  up_type :: string
  up_size :: nat
  up_bytes :: string

definition allowedExtensions :: "state \<Rightarrow> string list" where
  "allowedExtensions s =
     filter (\<lambda>ext. ext \<noteq> [])
       (map (\<lambda>ext. let l = toLowerCase (trim ext)
                   in if l \<noteq> [] \<and> hd l = CHR ''.'' then tl l else l)
            (split_on (CHR '','') (getSetting ''allowedFileTypes'' [] s)))"

definition maxSizeMB :: "state \<Rightarrow> int option" where
  "maxSizeMB s = parseInt (getSetting ''fileSizeLimitMB'' ''10'' s)"

text \<open>\<^verbatim>\<open>file.size > maxSizeBytes\<close>; a comparison with NaN is false.\<close>

definition exceeds_limit :: "nat \<Rightarrow> int option \<Rightarrow> bool" where
  "exceeds_limit sz mb = (case mb of None \<Rightarrow> False | Some m \<Rightarrow> int sz > m * 1024 * 1024)"

definition stored_filename :: "request \<Rightarrow> string \<Rightarrow> string" where
  "stored_filename rq name =
     (if now rq < 0 then ''-'' else []) @ decimal (nat \<bar>now rq\<bar>) @ ''-'' @ random_hex rq
       @ ''-'' @ sanitize name"

text \<open>
  The \<^verbatim>\<open>try\<close> block of \<^verbatim>\<open>uploadFile\<close>. When \<^verbatim>\<open>fs.writeFile\<close> fails, the error
  carries the path, and the handler attempts to unlink it before logging.
\<close>

definition uploadFile_try ::
  "env \<Rightarrow> request \<Rightarrow> nat \<Rightarrow> string \<Rightarrow> upload \<Rightarrow> string \<Rightarrow> state \<Rightarrow> message reply outcome \<times> state" where
  "uploadFile_try e rq userId ip file vis s =
     (let filename = stored_filename rq (up_name file);
          filePath = path_join [path_resolve e [process_cwd e, ''uploads''], filename];
          relativePath = path_join [''uploads'', filename];
          failed = log_row (Some userId) ip ''File Upload Error'' ''system'' None
      in case fs_writeFile filePath (up_bytes file) s of
           Done s1 \<Rightarrow>
             (let fileId = Suc (file_seq s1);
                  row = \<lparr>f_id = fileId, f_name = up_name file, f_type = Some (up_type file),
                         f_size = up_size file, upload_date = now rq, uploader_id = Some userId,
                         visibility = vis, f_path = relativePath\<rparr>
              in if \<exists>f \<in> set (files s1). f_path f = relativePath
                 then catch_log (None, s1) failed (Failure UploadFailed)
                 else catch_log
                        (logged (log_row (Some userId) ip ''File Upload'' ''file'' (Some fileId))
                           (s1\<lparr>files := files s1 @ [row], file_seq := fileId\<rparr>)
                           (Success FileUploaded))
                        failed (Failure UploadFailed))
         | Enoent \<Rightarrow> catch_log (None, s) failed (Failure UploadFailed)
         | IoError \<Rightarrow>
             (case fs_unlink filePath s of
                Done s1 \<Rightarrow> catch_log (None, s1) failed (Failure UploadFailed)
              | Enoent \<Rightarrow> catch_log (None, s) failed (Failure UploadFailed)
              | IoError \<Rightarrow> catch_log (None, s) failed (Failure UploadFailed)))"

definition uploadFile ::
  "env \<Rightarrow> request \<Rightarrow> upload option \<Rightarrow> string option \<Rightarrow> state \<Rightarrow> message reply outcome \<times> state" where
  "uploadFile e rq formFile formVisibility s0 =
     (case ensureUploadDir s0 of
        None \<Rightarrow> (Threw, s0)
      | Some s \<Rightarrow>
          (case getUserIdFromSession rq s of
             None \<Rightarrow> (Returned (Failure AuthenticationRequired), s)
           | Some userId \<Rightarrow>
               if userId = 0 then (Returned (Failure AuthenticationRequired), s)
               else
                 (case formFile of
                    None \<Rightarrow> (Returned (Failure NoFileProvided), s)
                  | Some file \<Rightarrow>
                      if exceeds_limit (up_size file) (maxSizeMB s)
                      then (Returned (Failure (FileSizeExceeds (maxSizeMB s))), s)
                      else
                        (let fileExtension = drop 1 (toLowerCase (path_extname (up_name file)))
                         in if allowedExtensions s \<noteq> [] \<and> fileExtension \<notin> set (allowedExtensions s)
                            then (Returned (Failure (FileTypeNotAllowed fileExtension)), s)
                            else uploadFile_try e rq userId (getIpAddress rq) file
                                   (case formVisibility of
                                      None \<Rightarrow> ''private''
                                    | Some v \<Rightarrow> if v = [] then ''private'' else v) s))))"

definition set_visibility :: "nat \<Rightarrow> string \<Rightarrow> file_record list \<Rightarrow> file_record list" where
  "set_visibility fileId v fs = map (\<lambda>f. if f_id f = fileId then f\<lparr>visibility := v\<rparr> else f) fs"

definition toggleFileVisibility_try ::
  "nat \<Rightarrow> role option \<Rightarrow> string \<Rightarrow> nat \<Rightarrow> string \<Rightarrow> state \<Rightarrow> message reply option \<times> state" where
  "toggleFileVisibility_try userId userRole ip fileId newVisibility s =
     (case find (\<lambda>f. f_id f = fileId) (files s) of
        None \<Rightarrow> (Some (Failure FileNotFound), s)
      | Some file \<Rightarrow>
          if uploader_id file \<noteq> Some userId \<and> userRole \<noteq> Some RoleAdmin
          then logged (log_row (Some userId) ip ''Unauthorized Action'' ''security'' (Some fileId)) s
                 (Failure PermissionDenied)
          else if visibility file = newVisibility then (Some (Success VisibilityAlreadySet), s)
          else logged (log_row (Some userId) ip ''File Visibility Change'' ''file'' (Some fileId))
                 (s\<lparr>files := set_visibility fileId newVisibility (files s)\<rparr>)
                 (Success (VisibilityChanged newVisibility)))"

definition toggleFileVisibility ::
  "request \<Rightarrow> nat \<Rightarrow> string \<Rightarrow> state \<Rightarrow> message reply outcome \<times> state" where
  "toggleFileVisibility rq fileId newVisibility s =
     (case getUserIdFromSession rq s of
        None \<Rightarrow> (Returned (Failure AuthenticationRequired), s)
      | Some userId \<Rightarrow>
          if userId = 0 then (Returned (Failure AuthenticationRequired), s)
          else catch_log
                 (toggleFileVisibility_try userId (getUserRole userId s) (getIpAddress rq)
                    fileId newVisibility s)
                 (log_row (Some userId) (getIpAddress rq) ''File Visibility Error'' ''system''
                    (Some fileId))
                 (Failure VisibilityUpdateFailed))"

text \<open>
  \<^verbatim>\<open>deleteFile\<close>: the row is deleted in its own transaction, which is committed before
  the file is unlinked and before the deletion is logged.
\<close>

definition deleteFile_try ::
  "env \<Rightarrow> nat \<Rightarrow> role option \<Rightarrow> string \<Rightarrow> nat \<Rightarrow> state \<Rightarrow> message reply option \<times> state" where
  "deleteFile_try e userId userRole ip fileId s =
     (case find (\<lambda>f. f_id f = fileId) (files s) of
        None \<Rightarrow> (Some (Failure FileNotFound), s)
      | Some file \<Rightarrow>
          if uploader_id file \<noteq> Some userId \<and> userRole \<noteq> Some RoleAdmin
          then logged (log_row (Some userId) ip ''Unauthorized Action'' ''security'' (Some fileId)) s
                 (Failure PermissionDenied)
          else
            (let filePath = path_resolve e [process_cwd e, f_path file];
                 s1 = s\<lparr>files := filter (\<lambda>f. f_id f \<noteq> fileId) (files s)\<rparr>;
                 deleted = log_row (Some userId) ip ''File Deletion'' ''file'' (Some fileId)
             in case fs_unlink filePath s1 of
                  Done s2 \<Rightarrow> logged deleted s2 (Success FileDeleted)
                | Enoent \<Rightarrow> logged deleted s1 (Success FileDeleted)
                | IoError \<Rightarrow>
                    (case log_write
                            (log_row (Some userId) ip ''File Deletion IO Error'' ''system'' (Some fileId))
                            s1 of
                       None \<Rightarrow> (None, s1)
                     | Some s2 \<Rightarrow> logged deleted s2 (Success FileDeleted))))"

definition deleteFile :: "env \<Rightarrow> request \<Rightarrow> nat \<Rightarrow> state \<Rightarrow> message reply outcome \<times> state" where
  "deleteFile e rq fileId s =
     (case getUserIdFromSession rq s of
        None \<Rightarrow> (Returned (Failure AuthenticationRequired), s)
      | Some userId \<Rightarrow>
          if userId = 0 then (Returned (Failure AuthenticationRequired), s)
          else catch_log
                 (deleteFile_try e userId (getUserRole userId s) (getIpAddress rq) fileId s)
                 (log_row (Some userId) (getIpAddress rq) ''File Deletion Error'' ''system''
                    (Some fileId))
                 (Failure DeleteFailed))"

record file_info =
  fi_name :: string
  fi_path :: string
  fi_type :: "string option"

definition getDownloadFileInfo_try ::
  "env \<Rightarrow> nat \<Rightarrow> string \<Rightarrow> nat \<Rightarrow> state \<Rightarrow> file_info reply option \<times> state" where
  "getDownloadFileInfo_try e userId ip fileId s =
     (case find (\<lambda>f. f_id f = fileId) (files s) of
        None \<Rightarrow> (Some (Failure FileNotFound), s)
      | Some file \<Rightarrow>
          if visibility file = ''private'' \<and> uploader_id file \<noteq> Some userId
             \<and> getUserRole userId s \<noteq> Some RoleAdmin
          then logged (log_row (Some userId) ip ''File Access Denied'' ''security'' (Some fileId)) s
                 (Failure AccessDenied)
          else
            (case disk s (path_resolve e [process_cwd e, f_path file]) of
               None \<Rightarrow>
                 logged (log_row (Some userId) ip ''File Download Error'' ''system'' (Some fileId)) s
                   (Failure FileDataMissing)
             | Some b \<Rightarrow>
                 logged (log_row (Some userId) ip ''File Download'' ''file'' (Some fileId)) s
                   (Success \<lparr>fi_name = f_name file, fi_path = f_path file, fi_type = f_type file\<rparr>)))"

definition getDownloadFileInfo ::
  "env \<Rightarrow> request \<Rightarrow> nat \<Rightarrow> state \<Rightarrow> file_info reply outcome \<times> state" where
  "getDownloadFileInfo e rq fileId s =
     (case getUserIdFromSession rq s of
        None \<Rightarrow> (Returned (Failure AuthenticationRequired), s)
      | Some userId \<Rightarrow>
          if userId = 0 then (Returned (Failure AuthenticationRequired), s)
          else catch_log
                 (getDownloadFileInfo_try e userId (getIpAddress rq) fileId s)
                 (log_row (Some userId) (getIpAddress rq) ''File Download Error'' ''system''
                    (Some fileId))
                 (Failure DownloadFailed))"

section \<open>The file route (route.ts)\<close>

record served =
  body :: string
  content_type :: string
  content_length :: nat
  inline_disposition :: bool
  disposition_filename :: string
  cache_control :: string

datatype response = Plain nat string | Served served

fun status_code :: "response \<Rightarrow> nat" where
  "status_code (Plain code text) = code"
| "status_code (Served r) = 200"

definition relativePath :: "string list \<Rightarrow> string" where
  "relativePath filepath = path_join (''uploads'' # filepath)"

definition uploadDirResolved :: "env \<Rightarrow> string" where
  "uploadDirResolved e = path_resolve e [process_cwd e, ''uploads'']"

definition resolvedPath :: "env \<Rightarrow> string list \<Rightarrow> string" where
  "resolvedPath e filepath = path_resolve e [process_cwd e, path_normalize (relativePath filepath)]"

definition contentType :: "env \<Rightarrow> file_record \<Rightarrow> string" where
  "contentType e fileRecord =
     (case mime_lookup e (f_name fileRecord) of
        Some m \<Rightarrow> m
      | None \<Rightarrow>
          (case f_type fileRecord of
             None \<Rightarrow> ''application/octet-stream''
           | Some t \<Rightarrow> if t = [] then ''application/octet-stream'' else t))"

definition isInlinePreviewable :: "string \<Rightarrow> bool" where
  "isInlinePreviewable ct =
     (startsWith ct ''image/'' \<or> ct = ''application/pdf'' \<or> startsWith ct ''text/'')"

definition GET_try ::
  "env \<Rightarrow> nat \<Rightarrow> string \<Rightarrow> string list \<Rightarrow> bool \<Rightarrow> state \<Rightarrow> response option \<times> state" where
  "GET_try e userId ip filepath isPreview s =
     (case find (\<lambda>f. f_path f = relativePath filepath) (files s) of
        None \<Rightarrow> logged (log_row (Some userId) ip ''File Access Error'' ''file'' None) s
                 (Plain 404 ''File not found'')
      | Some fileRecord \<Rightarrow>
          if visibility fileRecord = ''private'' \<and> uploader_id fileRecord \<noteq> Some userId
             \<and> getUserRole userId s \<noteq> Some RoleAdmin
          then logged (log_row (Some userId) ip ''File Access Denied'' ''security''
                         (Some (f_id fileRecord))) s
                 (Plain 403 ''Forbidden'')
          else
            (case fs_readFile (path_resolve e [process_cwd e, f_path fileRecord]) s of
               Enoent \<Rightarrow>
                 logged (log_row (Some userId) ip ''File Access Error'' ''system''
                           (Some (f_id fileRecord))) s
                   (Plain 404 ''File data missing'')
             | IoError \<Rightarrow> (None, s)
             | Done fileBuffer \<Rightarrow>
                 logged (log_row (Some userId) ip
                           (if isPreview then ''File Preview'' else ''File Download'') ''file''
                           (Some (f_id fileRecord))) s
                   (Served
                      \<lparr>body = fileBuffer,
                       content_type = contentType e fileRecord,
                       content_length = length fileBuffer,
                       inline_disposition =
                         (isPreview \<and> isInlinePreviewable (contentType e fileRecord)),
                       disposition_filename = encodeURIComponent e (f_name fileRecord),
                       cache_control =
                         (if visibility fileRecord = ''private''
                          then ''private, no-store, must-revalidate''
                          else ''public, max-age=3600'')\<rparr>)))"

text \<open>
  \<^verbatim>\<open>GET\<close>; \<open>preview\<close> is the query parameter of that name. The traversal check and
  its log write stand before the \<^verbatim>\<open>try\<close> block.
\<close>

definition GET :: "env \<Rightarrow> request \<Rightarrow> string list \<Rightarrow> string option \<Rightarrow> state \<Rightarrow> response outcome \<times> state" where
  "GET e rq filepath preview s =
     (case getUserIdFromSession rq s of
        None \<Rightarrow> (Returned (Plain 401 ''Unauthorized''), s)
      | Some userId \<Rightarrow>
          if userId = 0 then (Returned (Plain 401 ''Unauthorized''), s)
          else if \<not> startsWith (resolvedPath e filepath) (uploadDirResolved e)
          then
            (case log_write
                    (log_row (Some userId) (getIpAddress rq) ''Path Traversal Attempt'' ''security''
                       None) s of
               None \<Rightarrow> (Threw, s)
             | Some s' \<Rightarrow> (Returned (Plain 403 ''Forbidden''), s'))
          else catch_log
                 (GET_try e userId (getIpAddress rq) filepath (preview = Some ''true'') s)
                 (log_row (Some userId) (getIpAddress rq) ''File Access Error'' ''system'' None)
                 (Plain 500 ''Internal Server Error''))"

section \<open>User actions (login, logout, user management)\<close>

text \<open>
  \<^verbatim>\<open>getUserFromSession\<close>: the session row, if it has not expired, joined with its
  user.
\<close>

definition getUserFromSession :: "request \<Rightarrow> state \<Rightarrow> (nat \<times> role) option" where
  "getUserFromSession rq s =
     (case session_cookie rq of
        None \<Rightarrow> None
      | Some sid \<Rightarrow>
          if sid = [] then None
          else
            (case find (\<lambda>x. session_id x = sid \<and> unexpired (now rq) (expires_at x)) (sessions s) of
               None \<Rightarrow> None
             | Some ses \<Rightarrow>
                 (case find (\<lambda>u. u_id u = s_user_id ses) (users s) of
                    None \<Rightarrow> None
                  | Some u \<Rightarrow> Some (u_id u, role u))))"

text \<open>\<^verbatim>\<open>db...get(key)?.value || fallback\<close>: a missing or empty value gives the fallback.\<close>

definition setting_or :: "string \<Rightarrow> string \<Rightarrow> state \<Rightarrow> string" where
  "setting_or k fallback s =
     (case map_of (settings s) k of None \<Rightarrow> fallback | Some v \<Rightarrow> if v = [] then fallback else v)"

definition agent :: "request \<Rightarrow> string" where
  "agent rq = (case user_agent rq of None \<Rightarrow> ''N/A'' | Some a \<Rightarrow> if a = [] then ''N/A'' else a)"

text \<open>
  \<^verbatim>\<open>createSession\<close> (auth.ts); \<open>None\<close> is its \<^verbatim>\<open>Session creation failed.\<close> error,
  raised when the expiry is not a date (the timeout setting is not a number) or the token
  is already a key of the table. The cookie it sets carries the token of the new row.
\<close>

definition createSession :: "request \<Rightarrow> nat \<Rightarrow> string \<Rightarrow> string \<Rightarrow> state \<Rightarrow> state option" where
  "createSession rq userId ip ua s =
     (case parseInt (setting_or ''sessionTimeoutMinutes'' ''30'' s) of
        None \<Rightarrow> None
      | Some minutes \<Rightarrow>
          if find (\<lambda>x. session_id x = random_hex rq) (sessions s) \<noteq> None then None
          else Some (s\<lparr>sessions := sessions s @
                 [\<lparr>session_id = random_hex rq, s_user_id = userId,
                   expires_at = now rq + minutes * 60 * 1000, created_at = now rq,
                   last_accessed_at = now rq, s_ip_address = ip, s_user_agent = ua\<rparr>]\<rparr>))"

text \<open>\<^verbatim>\<open>deleteSession\<close> (auth.ts) handles its own errors and never raises.\<close>

definition deleteSession :: "request \<Rightarrow> state \<Rightarrow> state" where
  "deleteSession rq s =
     (case session_cookie rq of
        None \<Rightarrow> s
      | Some sid \<Rightarrow>
          if sid = [] then s
          else s\<lparr>sessions := filter (\<lambda>x. session_id x \<noteq> sid) (sessions s)\<rparr>)"

definition maintenanceMode :: "state \<Rightarrow> bool" where
  "maintenanceMode s = (map_of (settings s) ''maintenanceMode'' = Some ''true'')"

definition loginUser_try ::
  "env \<Rightarrow> request \<Rightarrow> string \<Rightarrow> string \<Rightarrow> state \<Rightarrow> (nat \<times> string \<times> role) reply option \<times> state" where
  "loginUser_try e rq uname password s =
     (if uname = [] \<or> password = [] then (Some (Failure InvalidInput), s)
      else
        (case find (\<lambda>u. username u = uname) (users s) of
           None \<Rightarrow>
             logged (log_row None (getIpAddress rq) ''Login Failure'' ''auth'' None) s
               (Failure InvalidCredentials)
         | Some u \<Rightarrow>
             if status u \<noteq> Active
             then logged (log_row (Some (u_id u)) (getIpAddress rq) ''Login Failure'' ''auth''
                            (Some (u_id u))) s
                    (Failure AccountInactive)
             else
               (case verifyPassword e password (password_hash u) of
                  None \<Rightarrow> (None, s)
                | Some passwordMatch \<Rightarrow>
                    if \<not> passwordMatch
                    then logged (log_row (Some (u_id u)) (getIpAddress rq) ''Login Failure''
                                   ''auth'' (Some (u_id u))) s
                           (Failure InvalidCredentials)
                    else if maintenanceMode s \<and> role u \<noteq> RoleAdmin
                    then logged (log_row (Some (u_id u)) (getIpAddress rq) ''Login Failure''
                                   ''auth'' (Some (u_id u))) s
                           (Failure UnderMaintenance)
                    else
                      (case createSession rq (u_id u) (getIpAddress rq) (agent rq) s of
                         None \<Rightarrow> (None, s)
                       | Some s1 \<Rightarrow>
                           logged (log_row (Some (u_id u)) (getIpAddress rq) ''Login Success''
                                     ''auth'' (Some (u_id u))) s1
                             (Success (u_id u, username u, role u))))))"

definition loginUser ::
  "env \<Rightarrow> request \<Rightarrow> string \<Rightarrow> string \<Rightarrow> state \<Rightarrow> (nat \<times> string \<times> role) reply outcome \<times> state" where
  "loginUser e rq uname password s =
     catch_log (loginUser_try e rq uname password s)
       (log_row None (getIpAddress rq) ''Login Error'' ''system'' None)
       (Failure InternalServerError)"

datatype notice =
    LoggedOut
  | UserCreated nat
  | StatusSet status
  | PasswordWasReset
  | NoChangesDetected
  | ProfileUpdated
  | UserDeleted

definition logoutUser :: "request \<Rightarrow> state \<Rightarrow> notice reply outcome \<times> state" where
  "logoutUser rq s =
     (let userId = map_option fst (getUserFromSession rq s)
      in catch_log
           (logged (log_row userId (getIpAddress rq) ''Logout Success'' ''auth'' userId)
              (deleteSession rq s) (Success LoggedOut))
           (log_row userId (getIpAddress rq) ''Logout Error'' ''system'' None)
           (Failure LogoutFailed))"

text \<open>
  The guard that opens every admin action: no session, or a session of a user who is
  not an admin; the refusal of the latter is logged before the action returns.
\<close>

definition admin_gate ::
  "request \<Rightarrow> state \<Rightarrow> (nat \<Rightarrow> 'a reply outcome \<times> state) \<Rightarrow> 'a reply outcome \<times> state" where
  "admin_gate rq s continue =
     (case getUserFromSession rq s of
        None \<Rightarrow> (Returned (Failure AuthenticationRequired), s)
      | Some (adminId, adminRole) \<Rightarrow>
          if adminRole \<noteq> RoleAdmin
          then
            (case log_write
                    (log_row (Some adminId) (getIpAddress rq) ''Unauthorized Action'' ''security''
                       (Some adminId)) s of
               None \<Rightarrow> (Threw, s)
             | Some s' \<Rightarrow> (Returned (Failure PermissionDenied), s'))
          else continue adminId)"

definition passwordMinLength :: "state \<Rightarrow> int option" where
  "passwordMinLength s = parseInt (setting_or ''passwordMinLength'' ''6'' s)"

text \<open>zod's \<^verbatim>\<open>z.string().min(n)\<close>; with NaN for \<open>n\<close> nothing is too short.\<close>

definition min_length_ok :: "string \<Rightarrow> int option \<Rightarrow> bool" where
  "min_length_ok p m = (case m of None \<Rightarrow> True | Some n \<Rightarrow> n \<le> int (length p))"

record registration =
  reg_username :: string
  reg_email :: string
  reg_password :: string
  reg_role :: "role option"

definition registerUser :: "env \<Rightarrow> request \<Rightarrow> registration \<Rightarrow> state \<Rightarrow> notice reply outcome \<times> state" where
  "registerUser e rq vals s =
     admin_gate rq s (\<lambda>adminId.
       if \<not> (3 \<le> length (reg_username vals) \<and> valid_email e (reg_email vals)
               \<and> min_length_ok (reg_password vals) (passwordMinLength s))
       then (Returned (Failure InvalidData), s)
       else catch_log
              (if find (\<lambda>u. username u = reg_username vals \<or> email u = reg_email vals)
                    (users s) \<noteq> None
               then (Some (Failure NameOrEmailInUse), s)
               else logged
                      (log_row (Some adminId) (getIpAddress rq) ''User Creation'' ''admin''
                         (Some (Suc (user_seq s))))
                      (s\<lparr>users := users s @
                           [\<lparr>u_id = Suc (user_seq s), username = reg_username vals,
                             email = reg_email vals,
                             password_hash = hashPassword e (reg_password vals),
                             role = (case reg_role vals of None \<Rightarrow> RoleUser | Some r \<Rightarrow> r),
                             status = Active\<rparr>],
                         user_seq := Suc (user_seq s)\<rparr>)
                      (Success (UserCreated (Suc (user_seq s)))))
              (log_row (Some adminId) (getIpAddress rq) ''User Creation Error'' ''admin'' None)
              (Failure CreateUserFailed))"

definition updateUserStatus :: "request \<Rightarrow> nat \<Rightarrow> status \<Rightarrow> state \<Rightarrow> notice reply outcome \<times> state" where
  "updateUserStatus rq targetUserId st s =
     admin_gate rq s (\<lambda>adminId.
       if targetUserId = adminId \<and> st = Inactive
       then (Returned (Failure CannotDeactivateSelf), s)
       else catch_log
              (case find (\<lambda>u. u_id u = targetUserId) (users s) of
                 None \<Rightarrow> (Some (Failure TargetUserNotFound), s)
               | Some targetUser \<Rightarrow>
                   logged
                     (log_row (Some adminId) (getIpAddress rq)
                        (if st = Active then ''User Status Activated''
                         else ''User Status Deactivated'')
                        ''admin'' (Some targetUserId))
                     (s\<lparr>users := map (\<lambda>u. if u_id u = targetUserId then u\<lparr>status := st\<rparr> else u)
                                     (users s)\<rparr>)
                     (Success (StatusSet st)))
              (log_row (Some adminId) (getIpAddress rq) ''User Status Update Error'' ''admin''
                 (Some targetUserId))
              (Failure StatusUpdateFailed))"

text \<open>
  The forced logout after a password change: the doomed sessions are deleted; if any
  were, the termination is logged, and a failure of that write is logged in turn by the
  inner handler, whose own failure (\<open>None\<close>) reaches the handler of the action.
\<close>

definition terminate_sessions ::
  "(session \<Rightarrow> bool) \<Rightarrow> log_entry \<Rightarrow> log_entry \<Rightarrow> state \<Rightarrow> state option" where
  "terminate_sessions doomed done_row error_row s =
     (let s1 = s\<lparr>sessions := filter (\<lambda>x. \<not> doomed x) (sessions s)\<rparr>
      in if find doomed (sessions s) = None then Some s1
         else (case log_write done_row s1 of
                 Some s2 \<Rightarrow> Some s2
               | None \<Rightarrow> log_write error_row s1))"

definition resetUserPassword ::
  "env \<Rightarrow> request \<Rightarrow> nat \<Rightarrow> string \<Rightarrow> state \<Rightarrow> notice reply outcome \<times> state" where
  "resetUserPassword e rq targetUserId newPassword s =
     admin_gate rq s (\<lambda>adminId.
       if \<not> min_length_ok newPassword (passwordMinLength s)
       then (Returned (Failure InvalidData), s)
       else catch_log
              (case find (\<lambda>u. u_id u = targetUserId) (users s) of
                 None \<Rightarrow> (Some (Failure TargetUserNotFound), s)
               | Some targetUser \<Rightarrow>
                   (let s1 = s\<lparr>users :=
                               map (\<lambda>u. if u_id u = targetUserId
                                         then u\<lparr>password_hash := hashPassword e newPassword\<rparr>
                                         else u) (users s)\<rparr>
                    in case log_write
                              (log_row (Some adminId) (getIpAddress rq) ''Password Reset'' ''admin''
                                 (Some targetUserId)) s1 of
                         None \<Rightarrow> (None, s1)
                       | Some s2 \<Rightarrow>
                           (case terminate_sessions (\<lambda>x. s_user_id x = targetUserId)
                                   (log_row (Some adminId) (getIpAddress rq) ''Session Termination''
                                      ''security'' (Some targetUserId))
                                   (log_row (Some adminId) (getIpAddress rq)
                                      ''Session Termination Error'' ''security''
                                      (Some targetUserId)) s2 of
                              None \<Rightarrow> (None, s2\<lparr>sessions :=
                                            filter (\<lambda>x. s_user_id x \<noteq> targetUserId) (sessions s2)\<rparr>)
                            | Some s3 \<Rightarrow> (Some (Success PasswordWasReset), s3))))
              (log_row (Some adminId) (getIpAddress rq) ''Password Reset Error'' ''admin''
                 (Some targetUserId))
              (Failure PasswordResetFailed))"

record profile_update =
  pu_username :: "string option"
  pu_email :: "string option"
  pu_role :: "role option"

definition apply_profile_update :: "profile_update \<Rightarrow> user \<Rightarrow> user" where
  "apply_profile_update up u =
     u\<lparr>username := (case pu_username up of None \<Rightarrow> username u | Some n \<Rightarrow> n),
       email := (case pu_email up of None \<Rightarrow> email u | Some m \<Rightarrow> m),
       role := (case pu_role up of None \<Rightarrow> role u | Some r \<Rightarrow> r)\<rparr>"

text \<open>The \<^verbatim>\<open>UNIQUE\<close> constraints on \<^verbatim>\<open>username\<close> and \<^verbatim>\<open>email\<close>, for an update of one row.\<close>

definition unique_violation :: "nat \<Rightarrow> user \<Rightarrow> user list \<Rightarrow> bool" where
  "unique_violation targetUserId u us =
     (find (\<lambda>other. u_id other \<noteq> targetUserId \<and> (username other = username u \<or> email other = email u)) us
        \<noteq> None)"

definition updateUserProfile_try ::
  "request \<Rightarrow> nat \<Rightarrow> nat \<Rightarrow> profile_update \<Rightarrow> state \<Rightarrow> notice reply option \<times> state" where
  "updateUserProfile_try rq adminId targetUserId up s =
     (case find (\<lambda>u. u_id u = targetUserId) (users s) of
        None \<Rightarrow> (Some (Failure TargetUserNotFound), s)
      | Some targetUser \<Rightarrow>
          if (case pu_username up of
                None \<Rightarrow> False
              | Some n \<Rightarrow> n \<noteq> [] \<and> n \<noteq> username targetUser
                  \<and> find (\<lambda>other. username other = n \<and> u_id other \<noteq> targetUserId) (users s) \<noteq> None)
          then (Some (Failure UsernameInUse), s)
          else if (case pu_email up of
                     None \<Rightarrow> False
                   | Some m \<Rightarrow> m \<noteq> [] \<and> m \<noteq> email targetUser
                       \<and> find (\<lambda>other. email other = m \<and> u_id other \<noteq> targetUserId) (users s) \<noteq> None)
          then (Some (Failure EmailInUse), s)
          else if unique_violation targetUserId (apply_profile_update up targetUser) (users s)
          then (None, s)
          else logged
                 (log_row (Some adminId) (getIpAddress rq) ''Profile Update'' ''admin''
                    (Some targetUserId))
                 (s\<lparr>users := map (\<lambda>u. if u_id u = targetUserId then apply_profile_update up u
                                      else u) (users s)\<rparr>)
                 (Success ProfileUpdated))"

definition updateUserProfile ::
  "env \<Rightarrow> request \<Rightarrow> nat \<Rightarrow> profile_update \<Rightarrow> state \<Rightarrow> notice reply outcome \<times> state" where
  "updateUserProfile e rq targetUserId up s =
     admin_gate rq s (\<lambda>adminId.
       if \<not> ((case pu_username up of None \<Rightarrow> True | Some n \<Rightarrow> 3 \<le> length n)
               \<and> (case pu_email up of None \<Rightarrow> True | Some m \<Rightarrow> valid_email e m))
       then (Returned (Failure InvalidData), s)
       else if pu_username up = None \<and> pu_email up = None \<and> pu_role up = None
       then (Returned (Failure NoChangesProvided), s)
       else if targetUserId = adminId \<and> pu_role up \<noteq> None \<and> pu_role up \<noteq> Some RoleAdmin
       then (Returned (Failure CannotChangeOwnRole), s)
       else if targetUserId = 1 \<and> pu_role up \<noteq> None \<and> pu_role up \<noteq> Some RoleAdmin
       then (Returned (Failure CannotChangeSeedAdminRole), s)
       else catch_log (updateUserProfile_try rq adminId targetUserId up s)
              (log_row (Some adminId) (getIpAddress rq) ''Profile Update Error'' ''admin''
                 (Some targetUserId))
              (Failure ProfileUpdateFailed))"

text \<open>
  The transaction of \<^verbatim>\<open>deleteUser\<close>, with the foreign keys of the schema: sessions
  and notifications of the user go, files and log rows lose their reference to the user.
\<close>

definition delete_user_rows :: "nat \<Rightarrow> state \<Rightarrow> state" where
  "delete_user_rows targetUserId s =
     s\<lparr>users := filter (\<lambda>u. u_id u \<noteq> targetUserId) (users s),
       sessions := filter (\<lambda>x. s_user_id x \<noteq> targetUserId) (sessions s),
       notifications := filter (\<lambda>n. n \<noteq> targetUserId) (notifications s),
       files := map (\<lambda>f. if uploader_id f = Some targetUserId then f\<lparr>uploader_id := None\<rparr> else f)
                  (files s),
       logs := map (\<lambda>l. if l_user_id l = Some targetUserId then l\<lparr>l_user_id := None\<rparr> else l)
                 (logs s)\<rparr>"

definition deleteUser :: "request \<Rightarrow> nat \<Rightarrow> state \<Rightarrow> notice reply outcome \<times> state" where
  "deleteUser rq targetUserId s =
     admin_gate rq s (\<lambda>adminId.
       if targetUserId = adminId then (Returned (Failure CannotDeleteSelf), s)
       else if targetUserId = 1 then (Returned (Failure CannotDeleteSeedAdmin), s)
       else catch_log
              (case find (\<lambda>u. u_id u = targetUserId) (users s) of
                 None \<Rightarrow> (Some (Failure TargetUserNotFound), s)
               | Some targetUser \<Rightarrow>
                   logged
                     (log_row (Some adminId) (getIpAddress rq) ''User Deletion'' ''admin''
                        (Some targetUserId))
                     (delete_user_rows targetUserId s)
                     (Success UserDeleted))
              (log_row (Some adminId) (getIpAddress rq) ''User Deletion Error'' ''admin''
                 (Some targetUserId))
              (Failure UserDeleteFailed))"

record own_update =
  own_email :: "string option"
  own_currentPassword :: "string option"
  own_newPassword :: "string option"

text \<open>
  The \<^verbatim>\<open>try\<close> block of \<^verbatim>\<open>updateOwnProfile\<close>, after the user row has been found:
  \<open>newEmail\<close> and \<open>newHash\<close> are the entries of \<^verbatim>\<open>updates\<close>.
\<close>

definition updateOwnProfile_write ::
  "request \<Rightarrow> nat \<Rightarrow> string option \<Rightarrow> string option \<Rightarrow> state \<Rightarrow> notice reply option \<times> state" where
  "updateOwnProfile_write rq userId newEmail newHash s =
     (if newEmail = None \<and> newHash = None then (Some (Success NoChangesDetected), s)
      else
        (let s1 = s\<lparr>users :=
                    map (\<lambda>u. if u_id u = userId
                              then u\<lparr>email := (case newEmail of None \<Rightarrow> email u | Some m \<Rightarrow> m),
                                     password_hash :=
                                       (case newHash of None \<Rightarrow> password_hash u | Some h \<Rightarrow> h)\<rparr>
                              else u) (users s)\<rparr>
         in case log_write
                   (log_row (Some userId) (getIpAddress rq) ''Profile Self-Update'' ''auth''
                      (Some userId)) s1 of
              None \<Rightarrow> (None, s1)
            | Some s2 \<Rightarrow>
                if newHash = None then (Some (Success ProfileUpdated), s2)
                else
                  (case terminate_sessions
                          (\<lambda>x. s_user_id x = userId
                                \<and> session_id x \<noteq> (case session_cookie rq of None \<Rightarrow> [] | Some c \<Rightarrow> c))
                          (log_row (Some userId) (getIpAddress rq) ''Session Termination''
                             ''security'' (Some userId))
                          (log_row (Some userId) (getIpAddress rq) ''Session Termination Error''
                             ''security'' (Some userId)) s2 of
                     None \<Rightarrow>
                       (None, s2\<lparr>sessions :=
                          filter (\<lambda>x. \<not> (s_user_id x = userId
                                   \<and> session_id x \<noteq> (case session_cookie rq of None \<Rightarrow> [] | Some c \<Rightarrow> c)))
                            (sessions s2)\<rparr>)
                   | Some s3 \<Rightarrow> (Some (Success ProfileUpdated), s3))))"

definition updateOwnProfile_try ::
  "env \<Rightarrow> request \<Rightarrow> nat \<Rightarrow> own_update \<Rightarrow> state \<Rightarrow> notice reply option \<times> state" where
  "updateOwnProfile_try e rq userId vals s =
     (case find (\<lambda>u. u_id u = userId) (users s) of
        None \<Rightarrow> (Some (Failure UserNotFound), s)
      | Some u \<Rightarrow>
          (let changesEmail = (truthy (own_email vals) \<and> own_email vals \<noteq> Some (email u))
           in if changesEmail
                 \<and> find (\<lambda>other. Some (email other) = own_email vals \<and> u_id other \<noteq> userId) (users s) \<noteq> None
              then (Some (Failure EmailInUse), s)
              else
                (case own_newPassword vals of
                   None \<Rightarrow>
                     updateOwnProfile_write rq userId
                       (if changesEmail then own_email vals else None) None s
                 | Some newPassword \<Rightarrow>
                     if newPassword = []
                     then updateOwnProfile_write rq userId
                            (if changesEmail then own_email vals else None) None s
                     else if \<not> truthy (own_currentPassword vals)
                     then (Some (Failure CurrentPasswordRequired), s)
                     else
                       (case verifyPassword e
                               (case own_currentPassword vals of None \<Rightarrow> [] | Some c \<Rightarrow> c)
                               (password_hash u) of
                          None \<Rightarrow> (None, s)
                        | Some matches \<Rightarrow>
                            if \<not> matches
                            then logged
                                   (log_row (Some userId) (getIpAddress rq)
                                      ''Profile Update Failure'' ''security'' (Some userId)) s
                                   (Failure IncorrectCurrentPassword)
                            else
                              (case passwordMinLength s of
                                 None \<Rightarrow>
                                   updateOwnProfile_write rq userId
                                     (if changesEmail then own_email vals else None)
                                     (Some (hashPassword e newPassword)) s
                               | Some n \<Rightarrow>
                                   if int (length newPassword) < n
                                   then (Some (Failure (NewPasswordTooShort n)), s)
                                   else updateOwnProfile_write rq userId
                                          (if changesEmail then own_email vals else None)
                                          (Some (hashPassword e newPassword)) s)))))"

definition updateOwnProfile ::
  "env \<Rightarrow> request \<Rightarrow> own_update \<Rightarrow> state \<Rightarrow> notice reply outcome \<times> state" where
  "updateOwnProfile e rq vals s =
     (case getUserFromSession rq s of
        None \<Rightarrow> (Returned (Failure AuthenticationRequired), s)
      | Some (userId, userRole) \<Rightarrow>
          if \<not> (case own_email vals of None \<Rightarrow> True | Some m \<Rightarrow> valid_email e m)
          then (Returned (Failure InvalidData), s)
          else if \<not> truthy (own_email vals) \<and> \<not> truthy (own_newPassword vals)
          then (Returned (Failure NoChangesProvided), s)
          else catch_log (updateOwnProfile_try e rq userId vals s)
                 (log_row (Some userId) (getIpAddress rq) ''Profile Self-Update Error'' ''system''
                    (Some userId))
                 (Failure OwnProfileUpdateFailed))"

text \<open>The operations of the user module, each with the request that carries it.\<close>

datatype user_op =
    Login request string string
  | Logout request
  | Register request registration
  | UpdateStatus request nat status
  | ResetPassword request nat string
  | UpdateProfile request nat profile_update
  | DeleteUser request nat
  | UpdateOwn request own_update

fun user_step :: "env \<Rightarrow> user_op \<Rightarrow> state \<Rightarrow> state" where
  "user_step e (Login rq uname password) s = snd (loginUser e rq uname password s)"
| "user_step e (Logout rq) s = snd (logoutUser rq s)"
| "user_step e (Register rq vals) s = snd (registerUser e rq vals s)"
| "user_step e (UpdateStatus rq target st) s = snd (updateUserStatus rq target st s)"
| "user_step e (ResetPassword rq target newPassword) s =
     snd (resetUserPassword e rq target newPassword s)"
| "user_step e (UpdateProfile rq target up) s = snd (updateUserProfile e rq target up s)"
| "user_step e (DeleteUser rq target) s = snd (deleteUser rq target s)"
| "user_step e (UpdateOwn rq vals) s = snd (updateOwnProfile e rq vals s)"

fun user_run :: "env \<Rightarrow> user_op list \<Rightarrow> state \<Rightarrow> state" where
  "user_run e [] s = s"
| "user_run e (x # xs) s = user_run e xs (user_step e x s)"

section \<open>Vocabulary of the properties\<close>

text \<open>The ledger takes every row: no log write raises.\<close>

definition ledger_ok :: "state \<Rightarrow> bool" where
  "ledger_ok s = (\<forall>entry. \<not> ledger_rejects s entry)"

text \<open>
  A resolved path falls under the upload root when it is the root or lies below it, that
  is, continues the root with a separator.
\<close>

definition under_root :: "string \<Rightarrow> string \<Rightarrow> bool" where
  "under_root root p = (p = root \<or> startsWith p (root @ ''/''))"

text \<open>A ledger that raises on the rows of one action label and takes all others.\<close>

definition ledger_drops :: "string \<Rightarrow> log_entry \<Rightarrow> bool" where
  "ledger_drops act entry = (l_action entry = act)"

text \<open>
  The seed admin is there: some user row has id 1 and the role admin.
\<close>

definition has_seed_admin :: "user list \<Rightarrow> bool" where
  "has_seed_admin us = (\<exists>u \<in> set us. u_id u = 1 \<and> role u = RoleAdmin)"

definition seed_admin_present :: "state \<Rightarrow> bool" where
  "seed_admin_present s = has_seed_admin (users s)"

section \<open>Sample data\<close>

definition env0 :: env where
  "env0 = \<lparr>process_cwd = ''/app'',
            sha256_hex = (\<lambda>p. replicate 64 (CHR ''0'')),
            mime_lookup = (\<lambda>n. None),
            valid_email = (\<lambda>a. CHR ''@'' \<in> set a),
            encodeURIComponent = (\<lambda>n. n)\<rparr>"

definition admin0 :: user where
  "admin0 = \<lparr>u_id = 1, username = ''AdminUser'', email = ''admin@example.com'',
              password_hash = replicate 64 (CHR ''0''), role = RoleAdmin, status = Active\<rparr>"

definition bob0 :: user where
  "bob0 = \<lparr>u_id = 2, username = ''bob'', email = ''bob@example.com'',
            password_hash = replicate 64 (CHR ''0''), role = RoleUser, status = Active\<rparr>"

definition carol0 :: user where
  "carol0 = \<lparr>u_id = 3, username = ''carol'', email = ''carol@example.com'',
              password_hash = replicate 64 (CHR ''0''), role = RoleUser, status = Inactive\<rparr>"

definition dave0 :: user where
  "dave0 = \<lparr>u_id = 4, username = ''dave'', email = ''dave@example.com'',
             password_hash = replicate 64 (CHR ''0''), role = RoleUser, status = Active\<rparr>"

definition session_of :: "string \<Rightarrow> nat \<Rightarrow> int \<Rightarrow> session" where
  "session_of tok uid exp =
     \<lparr>session_id = tok, s_user_id = uid, expires_at = exp, created_at = 0,
      last_accessed_at = 0, s_ip_address = ''::1'', s_user_agent = ''N/A''\<rparr>"

definition report0 :: file_record where
  "report0 = \<lparr>f_id = 1, f_name = ''report.pdf'', f_type = Some ''application/pdf'',
               f_size = 2097152, upload_date = 0, uploader_id = Some 1,
               visibility = ''private'', f_path = ''uploads/1-ab-report.pdf''\<rparr>"

definition notes0 :: file_record where
  "notes0 = \<lparr>f_id = 2, f_name = ''notes.txt'', f_type = Some ''text/plain'',
              f_size = 5, upload_date = 0, uploader_id = Some 2,
              visibility = ''private'', f_path = ''uploads/2-cd-notes.txt''\<rparr>"

definition state0 :: state where
  "state0 =
     \<lparr>users = [admin0, bob0, carol0, dave0],
      sessions = [session_of ''tok-admin'' 1 1000, session_of ''tok-bob'' 2 1000,
                  session_of ''tok-old'' 2 10, session_of ''tok-dave'' 4 1000],
      files = [report0, notes0],
      logs = [],
      settings = [(''fileSizeLimitMB'', ''10''), (''allowedFileTypes'', ''pdf, txt''),
                  (''maintenanceMode'', ''false'')],
      notifications = [],
      user_seq = 4,
      file_seq = 2,
      ledger_rejects = (\<lambda>e. False),
      disk = (\<lambda>p. if p = ''/app/uploads/1-ab-report.pdf'' then Some ''%PDF''
                   else if p = ''/app/uploads/2-cd-notes.txt'' then Some ''hello'' else None),
      io_denied = (\<lambda>p. False),
      uploads_dir = DirPresent\<rparr>"

definition request0 :: "string \<Rightarrow> request" where
  "request0 tok =
     \<lparr>session_cookie = Some tok, cf_connecting_ip = None, x_forwarded_for = None,
      x_real_ip = None, user_agent = None, now = 500, random_hex = ''00ff''\<rparr>"

text \<open>
  An upload whose \<^verbatim>\<open>visibility\<close> field is neither \<^verbatim>\<open>private\<close> nor \<^verbatim>\<open>public\<close>, the
  row it becomes and the state it leaves; the sample state in maintenance mode; the
  sample state with a second admin, and a demotion.
\<close>

definition memo :: upload where
  "memo = \<lparr>up_name = ''memo.txt'', up_type = ''text/plain'', up_size = 4, up_bytes = ''memo''\<rparr>"

definition memo_row :: file_record where
  "memo_row = \<lparr>f_id = 3, f_name = ''memo.txt'', f_type = Some ''text/plain'', f_size = 4,
                upload_date = 500, uploader_id = Some 2, visibility = ''secret'',
                f_path = ''uploads/500-00ff-memo.txt''\<rparr>"

definition state1 :: state where
  "state1 = state0\<lparr>disk := (disk state0)(''/app/uploads/500-00ff-memo.txt'' \<mapsto> ''memo''),
                    files := [report0, notes0, memo_row],
                    file_seq := 3,
                    logs := [log_row (Some 2) ''::1'' ''File Upload'' ''file'' (Some 3)]\<rparr>"


definition two_admins0 :: state where
  "two_admins0 = state0\<lparr>users := [admin0, bob0, carol0, dave0\<lparr>role := RoleAdmin\<rparr>]\<rparr>"

definition demotion :: profile_update where
  "demotion = \<lparr>pu_username = None, pu_email = None, pu_role = Some RoleUser\<rparr>"

section \<open>Properties\<close>

subsection \<open>Facts about the sample data\<close>

lemma state0_sel:
  "users state0 = [admin0, bob0, carol0, dave0]"
  "sessions state0 = [session_of ''tok-admin'' 1 1000, session_of ''tok-bob'' 2 1000,
                      session_of ''tok-old'' 2 10, session_of ''tok-dave'' 4 1000]"
  "files state0 = [report0, notes0]"
  "logs state0 = []"
  "settings state0 = [(''fileSizeLimitMB'', ''10''), (''allowedFileTypes'', ''pdf, txt''),
                      (''maintenanceMode'', ''false'')]"
  "ledger_rejects state0 = (\<lambda>e. False)"
  "io_denied state0 = (\<lambda>p. False)"
  "uploads_dir state0 = DirPresent"
  "disk state0 = (\<lambda>p. if p = ''/app/uploads/1-ab-report.pdf'' then Some ''%PDF''
                       else if p = ''/app/uploads/2-cd-notes.txt'' then Some ''hello'' else None)"
  "file_seq state0 = 2"
  "user_seq state0 = 4"
  "notifications state0 = []"
  by (simp_all add: state0_def)

lemmas rows0 = session_of_def admin0_def bob0_def carol0_def dave0_def report0_def notes0_def

lemma getIpAddress_request0: "getIpAddress (request0 tok) = ''::1''"
  by (simp add: getIpAddress_def request0_def)

lemma bob_session:
  "sessions s = sessions state0 \<Longrightarrow>
   getUserIdFromSession (request0 ''tok-bob'') s = Some 2"
  by (simp add: getUserIdFromSession_def state0_sel request0_def rows0 unexpired_def utc_day_def)

lemma dave_session:
  "sessions s = sessions state0 \<Longrightarrow>
   getUserIdFromSession (request0 ''tok-dave'') s = Some 4"
  by (simp add: getUserIdFromSession_def state0_sel request0_def rows0 unexpired_def utc_day_def)

lemma dave_role: "users s = users state0 \<Longrightarrow> getUserRole 4 s = Some RoleUser"
  by (simp add: getUserRole_def state0_sel rows0)


lemma ledger_ok_state0: "ledger_ok state0"
  by (simp add: ledger_ok_def state0_sel)

lemma paths0:
  "uploadDirResolved env0 = ''/app/uploads''"
  "resolvedPath env0 [''..'', ''uploads-evil'', ''x''] = ''/app/uploads-evil/x''"
  "relativePath [''..'', ''uploads-evil'', ''x''] = ''uploads-evil/x''"
  "resolvedPath env0 [''1-ab-report.pdf''] = ''/app/uploads/1-ab-report.pdf''"
  "relativePath [''1-ab-report.pdf''] = ''uploads/1-ab-report.pdf''"
  "path_resolve env0 [process_cwd env0, ''uploads/1-ab-report.pdf''] = ''/app/uploads/1-ab-report.pdf''"
  "path_resolve env0 [process_cwd env0, ''uploads/2-cd-notes.txt''] = ''/app/uploads/2-cd-notes.txt''"
  by code_simp+

subsection \<open>Password verification\<close>

lemma verifyPassword_same_length:
  "length storedHash = length (sha256_hex e password) \<Longrightarrow>
   verifyPassword e password storedHash = Some (storedHash = sha256_hex e password)"
  by (auto simp: verifyPassword_def timingSafeEqual_def hashPassword_def)

text \<open>
  C4. The claim: \<^verbatim>\<open>verify(password, digest)\<close> never throws, also on a malformed
  digest, and returns false whenever the digest is not the hash of the password.
  The code: a SHA-256 hex digest has 64 characters, and on a stored digest of any other
  length \<^verbatim>\<open>crypto.timingSafeEqual\<close> raises instead of returning false.
\<close>

theorem verifyPassword_throws_on_wrong_length:
  "length (sha256_hex e password) = 64 \<Longrightarrow> length storedHash \<noteq> 64 \<Longrightarrow>
   verifyPassword e password storedHash = None"
  by (simp add: verifyPassword_def timingSafeEqual_def hashPassword_def)

theorem verifyPassword_throws_on_wrong_length_witness:
  "length (sha256_hex env0 ''secret'') = 64 \<and> length ''abc'' \<noteq> (64::nat) \<and>
   verifyPassword env0 ''secret'' ''abc'' = None"
  using verifyPassword_throws_on_wrong_length [of env0 "''secret''" "''abc''"]
  by (simp add: env0_def)

subsection \<open>Lazy session expiry\<close>

lemma find_filter_neq:
  "find (\<lambda>x. session_id x = tok) (filter (\<lambda>x. session_id x \<noteq> tok) xs) = None"
  by (induction xs) auto

text \<open>
  C5. Once the current time is past the expiry of the session a token names,
  \<^verbatim>\<open>verifySession\<close> returns absent and deletes the row; no row with that token is
  left, and a later resolution of the same token, at any time, returns absent again and
  changes nothing.
\<close>

theorem verifySession_lazy_expiry:
  assumes "tok \<noteq> []"
    and "find (\<lambda>x. session_id x = tok) (sessions s) = Some ses"
    and "expires_at ses < t"
  shows "verifySession t tok s =
           (None, s\<lparr>sessions := filter (\<lambda>x. session_id x \<noteq> tok) (sessions s)\<rparr>)
         \<and> find (\<lambda>x. session_id x = tok) (sessions (snd (verifySession t tok s))) = None
         \<and> verifySession t' tok (snd (verifySession t tok s))
             = (None, snd (verifySession t tok s))"
proof -
  have first: "verifySession t tok s =
      (None, s\<lparr>sessions := filter (\<lambda>x. session_id x \<noteq> tok) (sessions s)\<rparr>)"
    using assms by (simp add: verifySession_def)
  have gone: "find (\<lambda>x. session_id x = tok) (sessions (snd (verifySession t tok s))) = None"
    by (simp add: first find_filter_neq)
  have again: "verifySession t' tok (snd (verifySession t tok s))
      = (None, snd (verifySession t tok s))"
    using assms(1) gone by (simp add: verifySession_def)
  from first gone again show ?thesis by blast
qed

theorem verifySession_lazy_expiry_witness:
  "''tok-old'' \<noteq> []
   \<and> find (\<lambda>x. session_id x = ''tok-old'') (sessions state0) = Some (session_of ''tok-old'' 2 10)
   \<and> expires_at (session_of ''tok-old'' 2 10) < 500
   \<and> fst (verifySession 500 ''tok-old'' state0) = None
   \<and> find (\<lambda>x. session_id x = ''tok-old'') (sessions (snd (verifySession 500 ''tok-old'' state0))) = None
   \<and> fst (verifySession 5 ''tok-old'' (snd (verifySession 500 ''tok-old'' state0))) = None"
proof -
  have a: "''tok-old'' \<noteq> []" by simp
  have b: "find (\<lambda>x. session_id x = ''tok-old'') (sessions state0) = Some (session_of ''tok-old'' 2 10)"
    by (simp add: state0_sel session_of_def)
  have c: "expires_at (session_of ''tok-old'' 2 10) < 500"
    by (simp add: session_of_def)
  note th = verifySession_lazy_expiry [OF a b c, of 5]
  have d: "fst (verifySession 500 ''tok-old'' state0) = None"
    by (simp add: th [THEN conjunct1])
  have e: "find (\<lambda>x. session_id x = ''tok-old'') (sessions (snd (verifySession 500 ''tok-old'' state0))) = None"
    by (rule th [THEN conjunct2, THEN conjunct1])
  have f: "fst (verifySession 5 ''tok-old'' (snd (verifySession 500 ''tok-old'' state0))) = None"
    by (simp add: th [THEN conjunct2, THEN conjunct2])
  show ?thesis by (intro conjI a b c d e f)
qed

lemma log_write_ok: "ledger_ok s \<Longrightarrow> log_write entry s = Some (s\<lparr>logs := logs s @ [entry]\<rparr>)"
  by (simp add: log_write_def ledger_ok_def)

lemma logged_ok: "ledger_ok s \<Longrightarrow> logged entry s v = (Some v, s\<lparr>logs := logs s @ [entry]\<rparr>)"
  by (simp add: logged_def log_write_ok)

lemma ledger_ok_update:
  "ledger_ok (s\<lparr>files := fs\<rparr>) = ledger_ok s"
  "ledger_ok (s\<lparr>logs := l\<rparr>) = ledger_ok s"
  by (simp_all add: ledger_ok_def)

lemma getUserIdFromSession_sessions:
  "sessions s' = sessions s \<Longrightarrow> getUserIdFromSession rq s' = getUserIdFromSession rq s"
  by (simp add: getUserIdFromSession_def split: option.splits)

lemma getUserRole_users:
  "users s' = users s \<Longrightarrow> getUserRole uid s' = getUserRole uid s"
  by (simp add: getUserRole_def)

lemma catch_log_Some: "catch_log (Some v, s) entry fb = (Returned v, s)"
  by (simp add: catch_log_def)

subsection \<open>The file route\<close>

lemma GET_sibling_of_root:
  "GET env0 (request0 ''tok-bob'') [''..'', ''uploads-evil'', ''x''] None state0
     = (Returned (Plain 404 ''File not found''),
        state0\<lparr>logs := [log_row (Some 2) ''::1'' ''File Access Error'' ''file'' None]\<rparr>)"
  by (simp add: GET_def GET_try_def bob_session paths0 startsWith_def logged_def log_write_def
        catch_log_def getIpAddress_request0 state0_sel rows0)

text \<open>
  C1. The claim: every authenticated request whose reconstructed path resolves outside
  the upload root is answered 403 and logged under \<^verbatim>\<open>security\<close>, before any
  metadata is consulted.
  The code compares the resolved path with the resolved root by \<^verbatim>\<open>startsWith\<close>, so
  a sibling of the root whose name continues the root's name passes the check: the
  request for \<^verbatim>\<open>../uploads-evil/x\<close> resolves to \<^verbatim>\<open>/app/uploads-evil/x\<close>, outside
  \<^verbatim>\<open>/app/uploads\<close>, reaches the metadata lookup and is answered 404 with a log row
  of category \<^verbatim>\<open>file\<close>.
\<close>

theorem GET_sibling_of_root_not_rejected:
  "resolvedPath env0 [''..'', ''uploads-evil'', ''x''] = ''/app/uploads-evil/x''
   \<and> uploadDirResolved env0 = ''/app/uploads''
   \<and> \<not> under_root (uploadDirResolved env0) (resolvedPath env0 [''..'', ''uploads-evil'', ''x''])
   \<and> getUserIdFromSession (request0 ''tok-bob'') state0 = Some 2
   \<and> fst (GET env0 (request0 ''tok-bob'') [''..'', ''uploads-evil'', ''x''] None state0)
       = Returned (Plain 404 ''File not found'')
   \<and> logs (snd (GET env0 (request0 ''tok-bob'') [''..'', ''uploads-evil'', ''x''] None state0))
       = [log_row (Some 2) ''::1'' ''File Access Error'' ''file'' None]"
  by (simp add: GET_sibling_of_root paths0 under_root_def startsWith_def bob_session)

lemma find_by_id:
  "distinct (map u_id us) \<Longrightarrow> u \<in> set us \<Longrightarrow> find (\<lambda>x. u_id x = u_id u) us = Some u"
  by (induction us) (auto simp: image_iff)

text \<open>
  What the route does decide: for an authenticated actor whose row is \<open>actor\<close>, a file
  row found for the requested path and readable bytes, with the ledger taking its rows,
  the file is served, for download and for preview, unless its visibility is the text
  \<^verbatim>\<open>private\<close> and the actor is neither its owner nor an admin; then the answer is 403
  and one log row of category \<^verbatim>\<open>security\<close> is appended.
\<close>

lemma GET_read_rule:
  assumes auth: "getUserIdFromSession rq s = Some uid" "uid \<noteq> 0"
    and ids: "distinct (map u_id (users s))"
    and actor: "actor \<in> set (users s)" "u_id actor = uid"
    and inside: "startsWith (resolvedPath e filepath) (uploadDirResolved e)"
    and found: "find (\<lambda>f. f_path f = relativePath filepath) (files s) = Some file"
    and bytes: "fs_readFile (path_resolve e [process_cwd e, f_path file]) s = Done bytes"
    and ledger: "ledger_ok s"
  shows "((\<exists>r. fst (GET e rq filepath preview s) = Returned (Served r))
           = (visibility file \<noteq> ''private'' \<or> uploader_id file = Some uid
              \<or> role actor = RoleAdmin))
       \<and> (if visibility file \<noteq> ''private'' \<or> uploader_id file = Some uid
              \<or> role actor = RoleAdmin
           then \<exists>r. GET e rq filepath preview s =
                  (Returned (Served r),
                   s\<lparr>logs := logs s @
                      [log_row (Some uid) (getIpAddress rq)
                         (if preview = Some ''true'' then ''File Preview'' else ''File Download'')
                         ''file'' (Some (f_id file))]\<rparr>)
                  \<and> body r = bytes
           else GET e rq filepath preview s =
                  (Returned (Plain 403 ''Forbidden''),
                   s\<lparr>logs := logs s @
                      [log_row (Some uid) (getIpAddress rq) ''File Access Denied'' ''security''
                         (Some (f_id file))]\<rparr>))"
proof -
  have r: "getUserRole uid s = Some (role actor)"
    using find_by_id [OF ids actor(1)] actor(2) by (simp add: getUserRole_def)
  show ?thesis
    using auth inside found bytes ledger
    by (cases "role actor")
       (simp_all add: GET_def GET_try_def logged_ok catch_log_Some r)
qed

lemma getDownloadFileInfo_rule:
  assumes auth: "getUserIdFromSession rq s = Some uid" "uid \<noteq> 0"
    and ids: "distinct (map u_id (users s))"
    and actor: "actor \<in> set (users s)" "u_id actor = uid"
    and found: "find (\<lambda>f. f_id f = fileId) (files s) = Some file"
    and bytes: "disk s (path_resolve e [process_cwd e, f_path file]) = Some bytes"
    and ledger: "ledger_ok s"
  shows "getDownloadFileInfo e rq fileId s =
          (if visibility file \<noteq> ''private'' \<or> uploader_id file = Some uid
              \<or> role actor = RoleAdmin
           then (Returned (Success \<lparr>fi_name = f_name file, fi_path = f_path file,
                                      fi_type = f_type file\<rparr>),
                 s\<lparr>logs := logs s @
                    [log_row (Some uid) (getIpAddress rq) ''File Download'' ''file'' (Some fileId)]\<rparr>)
           else (Returned (Failure AccessDenied),
                 s\<lparr>logs := logs s @
                    [log_row (Some uid) (getIpAddress rq) ''File Access Denied'' ''security''
                       (Some fileId)]\<rparr>))"
proof -
  have r: "getUserRole uid s = Some (role actor)"
    using find_by_id [OF ids actor(1)] actor(2) by (simp add: getUserRole_def)
  show ?thesis
    using auth found bytes ledger
    by (cases "role actor")
       (simp_all add: getDownloadFileInfo_def getDownloadFileInfo_try_def logged_ok
          catch_log_Some r)
qed

subsection \<open>Deleting a file when the ledger fails\<close>

lemma find_filter_not:
  "find (\<lambda>f. f_id f = fileId) (filter (\<lambda>f. f_id f \<noteq> fileId) xs) = None"
  by (induction xs) auto

lemma deleteFile_notes0:
  assumes "sessions s = sessions state0" "users s = users state0" "files s = files state0"
    and "disk s = disk state0" "io_denied s = io_denied state0"
  shows "deleteFile_try env0 2 (getUserRole 2 s) ''::1'' 2 s
     = logged (log_row (Some 2) ''::1'' ''File Deletion'' ''file'' (Some 2))
         (s\<lparr>files := [report0],
            disk := (disk s)(''/app/uploads/2-cd-notes.txt'' := None)\<rparr>)
         (Success FileDeleted)"
  using assms
  by (simp add: deleteFile_try_def fs_unlink_def paths0 state0_sel rows0 Let_def)

text \<open>
  C3. The claim: a failure of the audit write never changes the outcome of the operation
  and produces no user-visible error. In \<^verbatim>\<open>deleteFile\<close> the log write stands
  unguarded inside the \<^verbatim>\<open>try\<close> block, after the transaction has been committed and
  the file unlinked: the owner's deletion succeeds with a working ledger; when the ledger
  raises on the \<^verbatim>\<open>File Deletion\<close> row the action returns
  \<^verbatim>\<open>Failed to delete file.\<close> although the row is gone; and when the ledger raises on
  every row the exception escapes the action.
\<close>

theorem deleteFile_ledger_failure_changes_outcome:
  "fst (deleteFile env0 (request0 ''tok-bob'') 2 state0) = Returned (Success FileDeleted)
   \<and> fst (deleteFile env0 (request0 ''tok-bob'') 2
            (state0\<lparr>ledger_rejects := ledger_drops ''File Deletion''\<rparr>))
       = Returned (Failure DeleteFailed)
   \<and> files (snd (deleteFile env0 (request0 ''tok-bob'') 2
            (state0\<lparr>ledger_rejects := ledger_drops ''File Deletion''\<rparr>))) = [report0]
   \<and> fst (deleteFile env0 (request0 ''tok-bob'') 2
            (state0\<lparr>ledger_rejects := (\<lambda>entry. True)\<rparr>)) = Threw"
  by (simp add: deleteFile_def bob_session getIpAddress_request0 deleteFile_notes0
        logged_def log_write_def catch_log_def state0_sel ledger_drops_def log_row_def)

text \<open>
  The outcome of an authorised \<^verbatim>\<open>deleteFile\<close> under any ledger: the metadata row is
  gone in every case (nothing is rolled back); the reply is success exactly when no log
  write of the \<^verbatim>\<open>try\<close> block was rejected; otherwise it is
  \<^verbatim>\<open>Failed to delete file.\<close>, or the exception escapes when the ledger rejects the
  row of the handler as well.
\<close>

lemma deleteFile_outcome:
  assumes auth: "getUserIdFromSession rq s = Some uid" "uid \<noteq> 0"
    and found: "find (\<lambda>f. f_id f = fileId) (files s) = Some file"
    and allowed: "uploader_id file = Some uid \<or> getUserRole uid s = Some RoleAdmin"
  shows "find (\<lambda>f. f_id f = fileId) (files (snd (deleteFile e rq fileId s))) = None
       \<and> fst (deleteFile e rq fileId s) =
            (if ledger_rejects s
                  (log_row (Some uid) (getIpAddress rq) ''File Deletion'' ''file'' (Some fileId))
                \<or> (disk s (path_resolve e [process_cwd e, f_path file]) \<noteq> None
                    \<and> io_denied s (path_resolve e [process_cwd e, f_path file])
                    \<and> ledger_rejects s
                          (log_row (Some uid) (getIpAddress rq) ''File Deletion IO Error''
                             ''system'' (Some fileId)))
             then (if ledger_rejects s
                        (log_row (Some uid) (getIpAddress rq) ''File Deletion Error'' ''system''
                           (Some fileId))
                   then Threw else Returned (Failure DeleteFailed))
             else Returned (Success FileDeleted))"
  using assms
  by (auto simp: deleteFile_def deleteFile_try_def Let_def fs_unlink_def logged_def
        log_write_def catch_log_def find_filter_not split: option.splits)

subsection \<open>Uploads over the size limit\<close>

lemma getUserIdFromSession_ensure:
  "ensureUploadDir s0 = Some s \<Longrightarrow> getUserIdFromSession rq s = getUserIdFromSession rq s0"
  by (auto simp: ensureUploadDir_def getUserIdFromSession_def split: dir_state.splits option.splits)

lemma ensureUploadDir_unchanged:
  "ensureUploadDir s0 = Some s \<Longrightarrow>
   files s = files s0 \<and> disk s = disk s0 \<and> logs s = logs s0 \<and> settings s = settings s0"
  by (auto simp: ensureUploadDir_def split: dir_state.splits)

text \<open>
  C7. An authenticated upload of a file whose size exceeds the \<^verbatim>\<open>fileSizeLimitMB\<close>
  setting (here \<open>m\<close> megabytes, as \<^verbatim>\<open>parseInt\<close> reads the setting) fails with the
  size error. The check stands before any write: no metadata row is created, the disk
  is as before, and nothing is logged. The upload directory is there or has been made by
  \<^verbatim>\<open>ensureUploadDir\<close>.
\<close>

theorem uploadFile_too_large:
  assumes dir: "ensureUploadDir s0 = Some s"
    and auth: "getUserIdFromSession rq s0 = Some uid" "uid \<noteq> 0"
    and limit: "maxSizeMB s0 = Some m"
    and big: "int (up_size file) > m * 1024 * 1024"
  shows "uploadFile e rq (Some file) vis s0 = (Returned (Failure (FileSizeExceeds (Some m))), s)
       \<and> files s = files s0 \<and> disk s = disk s0 \<and> logs s = logs s0"
proof -
  have m: "maxSizeMB s = Some m"
    using limit ensureUploadDir_unchanged [OF dir] by (simp add: maxSizeMB_def getSetting_def)
  have "uploadFile e rq (Some file) vis s0 = (Returned (Failure (FileSizeExceeds (Some m))), s)"
    using dir auth big m getUserIdFromSession_ensure [OF dir, of rq]
    by (simp add: uploadFile_def exceeds_limit_def)
  with ensureUploadDir_unchanged [OF dir] show ?thesis by simp
qed

lemma parseInt_10: "parseInt ''10'' = Some 10"
  by code_simp

theorem uploadFile_too_large_witness:
  "ensureUploadDir state0 = Some state0
   \<and> getUserIdFromSession (request0 ''tok-bob'') state0 = Some 2 \<and> (2::nat) \<noteq> 0
   \<and> maxSizeMB state0 = Some 10
   \<and> int (up_size \<lparr>up_name = ''big.pdf'', up_type = ''application/pdf'', up_size = 10485761,
                     up_bytes = replicate 10485761 (CHR ''a'')\<rparr>) > 10 * 1024 * 1024
   \<and> uploadFile env0 (request0 ''tok-bob'')
        (Some \<lparr>up_name = ''big.pdf'', up_type = ''application/pdf'', up_size = 10485761,
               up_bytes = replicate 10485761 (CHR ''a'')\<rparr>) (Some ''public'') state0
      = (Returned (Failure (FileSizeExceeds (Some 10))), state0)"
proof -
  let ?f = "\<lparr>up_name = ''big.pdf'', up_type = ''application/pdf'', up_size = 10485761,
              up_bytes = replicate 10485761 (CHR ''a'')\<rparr>"
  have a: "ensureUploadDir state0 = Some state0" by (simp add: ensureUploadDir_def state0_sel)
  have b: "getUserIdFromSession (request0 ''tok-bob'') state0 = Some 2" by (simp add: bob_session)
  have c: "(2::nat) \<noteq> 0" by simp
  have d: "maxSizeMB state0 = Some 10"
    by (simp add: maxSizeMB_def getSetting_def state0_sel parseInt_10)
  have e: "int (up_size ?f) > 10 * 1024 * 1024" by simp
  note th = uploadFile_too_large [OF a b c d e, of env0 "Some ''public''"]
  show ?thesis by (intro conjI a b c d e th [THEN conjunct1])
qed

subsection \<open>Toggling visibility\<close>

lemma set_visibility_roundtrip:
  "distinct (map f_id fs) \<Longrightarrow> find (\<lambda>f. f_id f = fileId) fs = Some file \<Longrightarrow>
   set_visibility fileId (visibility file) (set_visibility fileId v fs) = fs"
proof (induction fs)
  case Nil
  then show ?case by simp
next
  case (Cons a fs)
  show ?case
  proof (cases "f_id a = fileId")
    case True
    then have "a = file" using Cons.prems(2) by simp
    moreover have "\<forall>f \<in> set fs. f_id f \<noteq> fileId" using Cons.prems(1) True
      by (fastforce simp: image_iff)
    then have "set_visibility fileId (visibility file) (set_visibility fileId v fs) = fs"
      by (simp add: set_visibility_def map_idI)
    ultimately show ?thesis using True by (simp add: set_visibility_def)
  next
    case False
    then show ?thesis using Cons by (simp add: set_visibility_def)
  qed
qed

lemma find_set_visibility:
  "find (\<lambda>f. f_id f = fileId) fs = Some file \<Longrightarrow>
   find (\<lambda>f. f_id f = fileId) (set_visibility fileId v fs) = Some (file\<lparr>visibility := v\<rparr>)"
  by (induction fs) (auto simp: set_visibility_def)

text \<open>
  C8. For a file and an actor allowed to change it (its owner or an admin), with file
  ids unique and the ledger taking its rows: toggling to the visibility the file already
  has succeeds and leaves the whole state, log included, unchanged; toggling to the other
  visibility \<open>v\<close> and back (private, public, private) succeeds twice and ends in the
  original state extended by exactly two log rows.
\<close>

theorem toggleFileVisibility_noop_and_round_trip:
  assumes auth: "getUserIdFromSession rq s = Some uid" "uid \<noteq> 0"
    and keys: "distinct (map f_id (files s))"
    and found: "find (\<lambda>f. f_id f = fileId) (files s) = Some file"
    and allowed: "uploader_id file = Some uid \<or> getUserRole uid s = Some RoleAdmin"
    and ledger: "ledger_ok s"
    and other: "v \<noteq> visibility file"
  shows "toggleFileVisibility rq fileId (visibility file) s
           = (Returned (Success VisibilityAlreadySet), s)
       \<and> toggleFileVisibility rq fileId v s
           = (Returned (Success (VisibilityChanged v)),
              s\<lparr>files := set_visibility fileId v (files s),
                logs := logs s @ [log_row (Some uid) (getIpAddress rq) ''File Visibility Change''
                                    ''file'' (Some fileId)]\<rparr>)
       \<and> toggleFileVisibility rq fileId (visibility file)
             (snd (toggleFileVisibility rq fileId v s))
           = (Returned (Success (VisibilityChanged (visibility file))),
              s\<lparr>logs := logs s @ [log_row (Some uid) (getIpAddress rq) ''File Visibility Change''
                                    ''file'' (Some fileId),
                                  log_row (Some uid) (getIpAddress rq) ''File Visibility Change''
                                    ''file'' (Some fileId)]\<rparr>)"
proof -
  let ?e = "log_row (Some uid) (getIpAddress rq) ''File Visibility Change'' ''file'' (Some fileId)"
  let ?s1 = "s\<lparr>files := set_visibility fileId v (files s), logs := logs s @ [?e]\<rparr>"
  have noop: "toggleFileVisibility rq fileId (visibility file) s
      = (Returned (Success VisibilityAlreadySet), s)"
    using auth found allowed
    by (auto simp: toggleFileVisibility_def toggleFileVisibility_try_def catch_log_Some)
  have one: "toggleFileVisibility rq fileId v s = (Returned (Success (VisibilityChanged v)), ?s1)"
    using auth found allowed ledger other
    by (auto simp: toggleFileVisibility_def toggleFileVisibility_try_def catch_log_Some logged_ok
          ledger_ok_update)
  have auth1: "getUserIdFromSession rq ?s1 = Some uid"
    using auth(1) by (simp add: getUserIdFromSession_sessions [of ?s1 s])
  have role1: "getUserRole uid ?s1 = getUserRole uid s"
    by (simp add: getUserRole_users [of ?s1 s])
  have ledger1: "ledger_ok ?s1" using ledger by (simp add: ledger_ok_update)
  have found1: "find (\<lambda>f. f_id f = fileId) (files ?s1) = Some (file\<lparr>visibility := v\<rparr>)"
    using found by (simp add: find_set_visibility)
  have restored: "set_visibility fileId (visibility file) (files ?s1) = files s"
    using keys found by (simp add: set_visibility_roundtrip)
  have two: "toggleFileVisibility rq fileId (visibility file) ?s1
      = (Returned (Success (VisibilityChanged (visibility file))), s\<lparr>logs := logs s @ [?e, ?e]\<rparr>)"
    using auth1 auth(2) found1 allowed other restored
    by (auto simp: toggleFileVisibility_def toggleFileVisibility_try_def catch_log_Some
          logged_ok ledger_ok_update ledger role1)
  show ?thesis using noop one two by simp
qed

theorem toggleFileVisibility_noop_and_round_trip_witness:
  "getUserIdFromSession (request0 ''tok-bob'') state0 = Some 2 \<and> (2::nat) \<noteq> 0
   \<and> distinct (map f_id (files state0))
   \<and> find (\<lambda>f. f_id f = 2) (files state0) = Some notes0
   \<and> uploader_id notes0 = Some 2
   \<and> ledger_ok state0
   \<and> ''public'' \<noteq> visibility notes0
   \<and> toggleFileVisibility (request0 ''tok-bob'') 2 ''private'' state0
        = (Returned (Success VisibilityAlreadySet), state0)
   \<and> fst (toggleFileVisibility (request0 ''tok-bob'') 2 ''public'' state0)
        = Returned (Success (VisibilityChanged ''public''))
   \<and> files (snd (toggleFileVisibility (request0 ''tok-bob'') 2 ''private''
                    (snd (toggleFileVisibility (request0 ''tok-bob'') 2 ''public'' state0))))
        = files state0
   \<and> length (logs (snd (toggleFileVisibility (request0 ''tok-bob'') 2 ''private''
                    (snd (toggleFileVisibility (request0 ''tok-bob'') 2 ''public'' state0)))))
        = length (logs state0) + 2"
proof -
  let ?rq = "request0 ''tok-bob''"
  have a: "getUserIdFromSession ?rq state0 = Some 2" by (simp add: bob_session)
  have b: "(2::nat) \<noteq> 0" by simp
  have c: "distinct (map f_id (files state0))" by (simp add: state0_sel rows0)
  have d: "find (\<lambda>f. f_id f = 2) (files state0) = Some notes0" by (simp add: state0_sel rows0)
  have e: "uploader_id notes0 = Some 2" by (simp add: notes0_def)
  have f: "ledger_ok state0" by (rule ledger_ok_state0)
  have g: "''public'' \<noteq> visibility notes0" by (simp add: notes0_def)
  have v: "visibility notes0 = ''private''" by (simp add: notes0_def)
  note th = toggleFileVisibility_noop_and_round_trip [OF a b c d disjI1 [OF e] f g]
  have h: "toggleFileVisibility ?rq 2 ''private'' state0 = (Returned (Success VisibilityAlreadySet), state0)"
    using th [THEN conjunct1] by (simp only: v)
  have i: "fst (toggleFileVisibility ?rq 2 ''public'' state0) = Returned (Success (VisibilityChanged ''public''))"
    by (simp add: th [THEN conjunct2, THEN conjunct1])
  have two: "toggleFileVisibility ?rq 2 ''private'' (snd (toggleFileVisibility ?rq 2 ''public'' state0))
      = (Returned (Success (VisibilityChanged ''private'')),
         state0\<lparr>logs := logs state0 @
            [log_row (Some 2) (getIpAddress ?rq) ''File Visibility Change'' ''file'' (Some 2),
             log_row (Some 2) (getIpAddress ?rq) ''File Visibility Change'' ''file'' (Some 2)]\<rparr>)"
    using th [THEN conjunct2, THEN conjunct2] by (simp only: v)
  have j: "files (snd (toggleFileVisibility ?rq 2 ''private''
                    (snd (toggleFileVisibility ?rq 2 ''public'' state0)))) = files state0"
    by (simp add: two)
  have k: "length (logs (snd (toggleFileVisibility ?rq 2 ''private''
                    (snd (toggleFileVisibility ?rq 2 ''public'' state0))))) = length (logs state0) + 2"
    by (simp add: two)
  show ?thesis by (intro conjI a b c d e f g h i j k)
qed

subsection \<open>A file that is neither private nor public\<close>

lemma strings0:
  "path_extname ''memo.txt'' = ''.txt''"
  "toLowerCase ''.txt'' = ''.txt''"
  "decimal 500 = ''500''"
  "sanitize ''memo.txt'' = ''memo.txt''"
  "path_join [''/app/uploads'', ''500-00ff-memo.txt''] = ''/app/uploads/500-00ff-memo.txt''"
  "path_join [''uploads'', ''500-00ff-memo.txt''] = ''uploads/500-00ff-memo.txt''"
  "path_resolve env0 [process_cwd env0, ''uploads''] = ''/app/uploads''"
  "path_resolve env0 [process_cwd env0, ''uploads/500-00ff-memo.txt'']
     = ''/app/uploads/500-00ff-memo.txt''"
  "resolvedPath env0 [''500-00ff-memo.txt''] = ''/app/uploads/500-00ff-memo.txt''"
  "relativePath [''500-00ff-memo.txt''] = ''uploads/500-00ff-memo.txt''"
  by code_simp+

lemma allowedExtensions_state0:
  "settings s = settings state0 \<Longrightarrow> allowedExtensions s = [''pdf'', ''txt'']"
proof -
  assume a: "settings s = settings state0"
  have g: "getSetting ''allowedFileTypes'' [] s = ''pdf, txt''"
    by (simp add: getSetting_def a state0_sel)
  show ?thesis unfolding allowedExtensions_def g by code_simp
qed

lemma maxSizeMB_state0: "settings s = settings state0 \<Longrightarrow> maxSizeMB s = Some 10"
  by (simp add: maxSizeMB_def getSetting_def state0_sel parseInt_10)

lemma stored_filename0: "stored_filename (request0 tok) ''memo.txt'' = ''500-00ff-memo.txt''"
  by (simp add: stored_filename_def request0_def strings0)

lemma request0_sel:
  "now (request0 tok) = 500" "random_hex (request0 tok) = ''00ff''"
  "session_cookie (request0 tok) = Some tok"
  by (simp_all add: request0_def)

lemma memo_sel:
  "up_name memo = ''memo.txt''" "up_size memo = 4" "up_bytes memo = ''memo''"
  "up_type memo = ''text/plain''"
  by (simp_all add: memo_def)

lemma upload_secret:
  "uploadFile env0 (request0 ''tok-bob'') (Some memo) (Some ''secret'') state0
     = (Returned (Success FileUploaded), state1)"
proof -
  have u: "uploadFile env0 (request0 ''tok-bob'') (Some memo) (Some ''secret'') state0
      = uploadFile_try env0 (request0 ''tok-bob'') 2 ''::1'' memo ''secret'' state0"
    by (simp add: uploadFile_def ensureUploadDir_def bob_session maxSizeMB_state0
          allowedExtensions_state0 exceeds_limit_def memo_sel strings0 Let_def
          getIpAddress_request0 state0_sel(8))
  have t: "uploadFile_try env0 (request0 ''tok-bob'') 2 ''::1'' memo ''secret'' state0
      = (Returned (Success FileUploaded), state1)"
    by (simp add: uploadFile_try_def memo_sel Let_def stored_filename0 strings0 fs_writeFile_def
          state0_sel rows0 request0_sel logged_def log_write_def catch_log_def state1_def
          memo_row_def)
  show ?thesis by (simp only: u t)
qed

lemma state1_sel:
  "sessions state1 = sessions state0"
  "users state1 = users state0"
  "files state1 = [report0, notes0, memo_row]"
  "ledger_rejects state1 = (\<lambda>e. False)"
  "io_denied state1 = (\<lambda>p. False)"
  "disk state1 ''/app/uploads/500-00ff-memo.txt'' = Some ''memo''"
  by (simp_all add: state1_def state0_sel)

lemma env0_sel:
  "mime_lookup env0 n = None" "encodeURIComponent env0 n = n" "process_cwd env0 = ''/app''"
  by (simp_all add: env0_def)

lemma memo_row_sel:
  "f_path memo_row = ''uploads/500-00ff-memo.txt''" "visibility memo_row = ''secret''"
  "uploader_id memo_row = Some 2" "f_id memo_row = 3" "f_name memo_row = ''memo.txt''"
  "f_type memo_row = Some ''text/plain''"
  by (simp_all add: memo_row_def)

lemma GET_memo_by_dave:
  "GET env0 (request0 ''tok-dave'') [''500-00ff-memo.txt''] None state1
     = (Returned (Served \<lparr>body = ''memo'', content_type = ''text/plain'', content_length = 4,
                           inline_disposition = False, disposition_filename = ''memo.txt'',
                           cache_control = ''public, max-age=3600''\<rparr>),
        state1\<lparr>logs := logs state1 @
           [log_row (Some 4) ''::1'' ''File Download'' ''file'' (Some 3)]\<rparr>)"
proof -
  have f: "find (\<lambda>f. f_path f = ''uploads/500-00ff-memo.txt'') (files state1) = Some memo_row"
    by (simp add: state1_sel rows0 memo_row_sel)
  have r: "fs_readFile ''/app/uploads/500-00ff-memo.txt'' state1 = Done ''memo''"
    by (simp add: fs_readFile_def state1_sel)
  show ?thesis
    by (simp add: GET_def GET_try_def dave_session dave_role state1_sel(1,2) strings0 paths0
          startsWith_def f r memo_row_sel contentType_def env0_sel(1,2) getIpAddress_request0
          logged_def log_write_def state1_sel(4) catch_log_def)
qed

text \<open>
  C2. The claim: a read through the route succeeds if and only if the file is public, or
  the actor is its owner, or the actor is an admin; otherwise it is denied with 403 and
  logged under \<^verbatim>\<open>security\<close>.
  The code denies only on the text \<^verbatim>\<open>private\<close>, and \<^verbatim>\<open>uploadFile\<close> stores the
  \<^verbatim>\<open>visibility\<close> field of the form as it arrives: a plain user uploads a file with
  visibility \<^verbatim>\<open>secret\<close>; another plain user, neither its owner nor an admin, then
  downloads it through the route, with status 200 and a log row of category
  \<^verbatim>\<open>file\<close>.
\<close>

theorem GET_serves_file_that_is_not_public:
  "uploadFile env0 (request0 ''tok-bob'') (Some memo) (Some ''secret'') state0
     = (Returned (Success FileUploaded), state1)
   \<and> find (\<lambda>f. f_path f = relativePath [''500-00ff-memo.txt'']) (files state1) = Some memo_row
   \<and> visibility memo_row = ''secret''
   \<and> uploader_id memo_row = Some 2
   \<and> getUserIdFromSession (request0 ''tok-dave'') state1 = Some 4
   \<and> find (\<lambda>u. u_id u = 4) (users state1) = Some dave0
   \<and> role dave0 = RoleUser
   \<and> fst (GET env0 (request0 ''tok-dave'') [''500-00ff-memo.txt''] None state1)
        = Returned (Served \<lparr>body = ''memo'', content_type = ''text/plain'', content_length = 4,
                             inline_disposition = False, disposition_filename = ''memo.txt'',
                             cache_control = ''public, max-age=3600''\<rparr>)
   \<and> logs (snd (GET env0 (request0 ''tok-dave'') [''500-00ff-memo.txt''] None state1))
        = logs state1 @ [log_row (Some 4) ''::1'' ''File Download'' ''file'' (Some 3)]"
  by (simp add: upload_secret GET_memo_by_dave strings0 state1_sel state0_sel rows0 memo_row_sel
        dave_session)

subsection \<open>Login of an inactive account\<close>

lemma users_log_write: "log_write entry s = Some s' \<Longrightarrow> users s' = users s"
  by (auto simp: log_write_def split: if_splits)


lemma users_logged: "users (snd (logged entry s v)) = users s"
  by (auto simp: logged_def users_log_write split: option.splits)


lemma users_catch_log: "users (snd (catch_log r entry fb)) = users (snd r)"
  by (cases r) (auto simp: catch_log_def users_log_write split: option.splits)


lemma fst_logged_cases: "fst (logged entry s v) = Some v \<or> fst (logged entry s v) = None"
  by (simp add: logged_def split: option.splits)

lemma fst_catch_log_cases:
  "fst (catch_log r entry fb) = Returned fb \<or> fst (catch_log r entry fb) = Threw
   \<or> (\<exists>v. fst r = Some v \<and> fst (catch_log r entry fb) = Returned v)"
  by (cases r) (auto simp: catch_log_def split: option.splits)

lemma loginUser_inactive:
  assumes "find (\<lambda>u. username u = uname) (users s) = Some u" "status u = Inactive"
    and "uname \<noteq> []" "password \<noteq> []"
  shows "loginUser e rq uname password s =
     catch_log
       (logged (log_row (Some (u_id u)) (getIpAddress rq) ''Login Failure'' ''auth'' (Some (u_id u)))
          s (Failure AccountInactive))
       (log_row None (getIpAddress rq) ''Login Error'' ''system'' None)
       (Failure InternalServerError)"
  using assms by (simp add: loginUser_def loginUser_try_def)

text \<open>
  C10, amended. For an account whose status is inactive, \<^verbatim>\<open>loginUser\<close> does not
  depend on the password as long as it is not empty: two runs that differ only in a
  non-empty password give the same reply and the same state; with the ledger taking its
  rows, the reply is \<^verbatim>\<open>Account is inactive.\<close> and one log row of category
  \<^verbatim>\<open>auth\<close> is appended.
\<close>

theorem loginUser_inactive_ignores_password:
  assumes "find (\<lambda>u. username u = uname) (users s) = Some u" "status u = Inactive"
    and "uname \<noteq> []" "p1 \<noteq> []" "p2 \<noteq> []"
  shows "loginUser e rq uname p1 s = loginUser e rq uname p2 s
       \<and> (ledger_ok s \<longrightarrow>
            loginUser e rq uname p1 s =
              (Returned (Failure AccountInactive),
               s\<lparr>logs := logs s @
                  [log_row (Some (u_id u)) (getIpAddress rq) ''Login Failure'' ''auth''
                     (Some (u_id u))]\<rparr>))"
  using assms by (simp add: loginUser_inactive logged_ok catch_log_Some)

lemma carol_found:
  "users s = users state0 \<Longrightarrow> find (\<lambda>u. username u = ''carol'') (users s) = Some carol0"
  by (simp add: state0_sel rows0)

text \<open>
  C10, as claimed: for an inactive account two runs that differ only in the password
  give identical results. The input is validated before the account is looked up: with
  the empty password \<^verbatim>\<open>loginUser\<close> returns \<^verbatim>\<open>Invalid input.\<close> and logs nothing,
  with any other password it returns \<^verbatim>\<open>Account is inactive.\<close>
\<close>

theorem loginUser_inactive_empty_password:
  "find (\<lambda>u. username u = ''carol'') (users state0) = Some carol0
   \<and> status carol0 = Inactive
   \<and> loginUser env0 (request0 []) ''carol'' [] state0 = (Returned (Failure InvalidInput), state0)
   \<and> fst (loginUser env0 (request0 []) ''carol'' ''x'' state0) = Returned (Failure AccountInactive)
   \<and> loginUser env0 (request0 []) ''carol'' [] state0
        \<noteq> loginUser env0 (request0 []) ''carol'' ''x'' state0"
proof -
  have a: "find (\<lambda>u. username u = ''carol'') (users state0) = Some carol0"
    by (simp add: carol_found)
  have b: "status carol0 = Inactive" by (simp add: carol0_def)
  have c: "loginUser env0 (request0 []) ''carol'' [] state0 = (Returned (Failure InvalidInput), state0)"
    by (simp add: loginUser_def loginUser_try_def catch_log_def)
  have d: "fst (loginUser env0 (request0 []) ''carol'' ''x'' state0) = Returned (Failure AccountInactive)"
    by (simp add: loginUser_inactive [OF a b] logged_ok [OF ledger_ok_state0] catch_log_Some)
  have e: "loginUser env0 (request0 []) ''carol'' [] state0
        \<noteq> loginUser env0 (request0 []) ''carol'' ''x'' state0"
  proof
    assume "loginUser env0 (request0 []) ''carol'' [] state0
        = loginUser env0 (request0 []) ''carol'' ''x'' state0"
    then have "fst (loginUser env0 (request0 []) ''carol'' [] state0)
        = fst (loginUser env0 (request0 []) ''carol'' ''x'' state0)" by simp
    then show False by (simp add: c d)
  qed
  show ?thesis by (intro conjI a b c d e)
qed

theorem loginUser_inactive_ignores_password_witness:
  "find (\<lambda>u. username u = ''carol'') (users state0) = Some carol0
   \<and> status carol0 = Inactive
   \<and> loginUser env0 (request0 []) ''carol'' ''right'' state0
        = loginUser env0 (request0 []) ''carol'' ''wrong'' state0
   \<and> ledger_ok state0
   \<and> loginUser env0 (request0 []) ''carol'' ''right'' state0 =
        (Returned (Failure AccountInactive),
         state0\<lparr>logs := logs state0 @
            [log_row (Some (u_id carol0)) (getIpAddress (request0 [])) ''Login Failure'' ''auth''
               (Some (u_id carol0))]\<rparr>)"
proof -
  have a: "find (\<lambda>u. username u = ''carol'') (users state0) = Some carol0"
    by (simp add: carol_found)
  have b: "status carol0 = Inactive" by (simp add: carol0_def)
  have c: "''carol'' \<noteq> []" and d: "''right'' \<noteq> []" and e: "''wrong'' \<noteq> []" by simp_all
  note th = loginUser_inactive_ignores_password [OF a b c d e, of env0 "request0 []"]
  show ?thesis
    by (intro conjI a b th [THEN conjunct1] ledger_ok_state0
          th [THEN conjunct2, rule_format, OF ledger_ok_state0])
qed

subsection \<open>Maintenance mode\<close>

















subsection \<open>The seed admin\<close>

lemma has_seed_admin_append: "has_seed_admin us \<Longrightarrow> has_seed_admin (us @ vs)"
  by (auto simp: has_seed_admin_def)

lemma has_seed_admin_filter:
  "has_seed_admin us \<Longrightarrow> target \<noteq> 1 \<Longrightarrow> has_seed_admin (filter (\<lambda>u. u_id u \<noteq> target) us)"
  by (auto simp: has_seed_admin_def)

lemma has_seed_admin_map:
  assumes "has_seed_admin us"
    and "\<And>u. u_id u = 1 \<Longrightarrow> role u = RoleAdmin \<Longrightarrow> u_id (f u) = 1 \<and> role (f u) = RoleAdmin"
  shows "has_seed_admin (map (\<lambda>u. if P u then f u else u) us)"
proof -
  from assms(1) obtain u where u: "u \<in> set us" "u_id u = 1" "role u = RoleAdmin"
    by (auto simp: has_seed_admin_def)
  let ?g = "\<lambda>u. if P u then f u else u"
  have "?g u \<in> set (map ?g us)" using u(1) by (simp del: if_split)
  moreover have "u_id (?g u) = 1 \<and> role (?g u) = RoleAdmin" using u assms(2) by simp
  ultimately show ?thesis unfolding has_seed_admin_def by blast
qed

lemma seed_admin_catch_log:
  "seed_admin_present (snd r) \<Longrightarrow> seed_admin_present (snd (catch_log r entry fb))"
  by (simp add: seed_admin_present_def users_catch_log)

lemma seed_admin_logged:
  "seed_admin_present s \<Longrightarrow> seed_admin_present (snd (logged entry s v))"
  by (simp add: seed_admin_present_def users_logged)

lemma seed_admin_admin_gate:
  assumes "seed_admin_present s" and "\<And>a. seed_admin_present (snd (k a))"
  shows "seed_admin_present (snd (admin_gate rq s k))"
  using assms
  by (auto simp: admin_gate_def seed_admin_present_def users_log_write split: option.splits)

lemma users_terminate_sessions:
  "terminate_sessions doomed a b s = Some s' \<Longrightarrow> users s' = users s"
  by (auto simp: terminate_sessions_def Let_def users_log_write split: if_splits option.splits
           dest!: users_log_write)

lemma seed_loginUser:
  "seed_admin_present s \<Longrightarrow> seed_admin_present (snd (loginUser e rq uname password s))"
  unfolding loginUser_def
  by (rule seed_admin_catch_log)
     (auto simp: loginUser_try_def seed_admin_present_def users_logged createSession_def
           split: option.splits)

lemma seed_logoutUser:
  "seed_admin_present s \<Longrightarrow> seed_admin_present (snd (logoutUser rq s))"
  by (auto simp: logoutUser_def Let_def seed_admin_present_def users_catch_log users_logged
        deleteSession_def split: option.splits)

lemma seed_registerUser:
  "seed_admin_present s \<Longrightarrow> seed_admin_present (snd (registerUser e rq vals s))"
  unfolding registerUser_def
  by (rule seed_admin_admin_gate)
     (auto simp: seed_admin_present_def users_catch_log users_logged has_seed_admin_append)

lemma seed_updateUserStatus:
  "seed_admin_present s \<Longrightarrow> seed_admin_present (snd (updateUserStatus rq target st s))"
  unfolding updateUserStatus_def
  by (rule seed_admin_admin_gate)
     (auto simp: seed_admin_present_def users_catch_log users_logged
           intro!: has_seed_admin_map split: option.splits)

lemma seed_resetUserPassword:
  "seed_admin_present s \<Longrightarrow> seed_admin_present (snd (resetUserPassword e rq target pw s))"
  unfolding resetUserPassword_def
  by (rule seed_admin_admin_gate)
     (auto simp: seed_admin_present_def users_catch_log Let_def
           intro!: has_seed_admin_map
           dest!: users_log_write users_terminate_sessions split: option.splits)

lemma seed_updateUserProfile_try:
  assumes "seed_admin_present s"
    and "\<not> (target = 1 \<and> pu_role up \<noteq> None \<and> pu_role up \<noteq> Some RoleAdmin)"
  shows "seed_admin_present (snd (updateUserProfile_try rq a target up s))"
proof -
  have keep: "\<And>u. u_id u = target \<Longrightarrow> u_id u = 1 \<Longrightarrow> role u = RoleAdmin \<Longrightarrow>
      u_id (apply_profile_update up u) = 1 \<and> role (apply_profile_update up u) = RoleAdmin"
    using assms(2) by (auto simp: apply_profile_update_def split: option.splits)
  have m: "has_seed_admin (map (\<lambda>u. if u_id u = target then apply_profile_update up u else u)
             (users s))"
  proof -
    from assms(1) obtain u where u: "u \<in> set (users s)" "u_id u = 1" "role u = RoleAdmin"
      by (auto simp: has_seed_admin_def seed_admin_present_def)
    let ?g = "\<lambda>u. if u_id u = target then apply_profile_update up u else u"
    have "?g u \<in> set (map ?g (users s))" using u(1) by (simp del: if_split)
    moreover have "u_id (?g u) = 1 \<and> role (?g u) = RoleAdmin" using u keep by simp
    ultimately show ?thesis unfolding has_seed_admin_def by blast
  qed
  show ?thesis
    using assms(1) m
    by (auto simp: updateUserProfile_try_def seed_admin_present_def users_logged
          split: option.splits)
qed

lemma seed_updateUserProfile:
  "seed_admin_present s \<Longrightarrow> seed_admin_present (snd (updateUserProfile e rq target up s))"
  unfolding updateUserProfile_def
  by (rule seed_admin_admin_gate)
     (auto intro!: seed_admin_catch_log seed_updateUserProfile_try)

lemma seed_deleteUser:
  "seed_admin_present s \<Longrightarrow> seed_admin_present (snd (deleteUser rq target s))"
  unfolding deleteUser_def
  by (rule seed_admin_admin_gate)
     (auto simp: seed_admin_present_def users_catch_log users_logged delete_user_rows_def
           intro!: has_seed_admin_filter split: option.splits)

lemma users_updateOwnProfile_write:
  "has_seed_admin (users s) \<Longrightarrow>
   has_seed_admin (users (snd (updateOwnProfile_write rq userId newEmail newHash s)))"
  by (auto simp: updateOwnProfile_write_def Let_def
        intro!: has_seed_admin_map
        dest!: users_log_write users_terminate_sessions split: option.splits)

lemma seed_updateOwnProfile:
  "seed_admin_present s \<Longrightarrow> seed_admin_present (snd (updateOwnProfile e rq vals s))"
  by (auto simp: updateOwnProfile_def updateOwnProfile_try_def Let_def seed_admin_present_def
        users_catch_log users_logged users_updateOwnProfile_write split: option.splits)

lemma seed_user_step:
  "seed_admin_present s \<Longrightarrow> seed_admin_present (user_step e x s)"
  by (cases x)
     (simp_all add: seed_loginUser seed_logoutUser seed_registerUser seed_updateUserStatus
        seed_resetUserPassword seed_updateUserProfile seed_deleteUser seed_updateOwnProfile)

lemma seed_user_run:
  "seed_admin_present s \<Longrightarrow> seed_admin_present (user_run e xs s)"
  by (induction xs arbitrary: s) (simp_all add: seed_user_step)

lemma getUserFromSession_row:
  assumes "session_cookie rq = Some tok" "tok \<noteq> []"
    and "find (\<lambda>x. session_id x = tok \<and> unexpired (now rq) (expires_at x)) (sessions s) = Some ses"
    and "find (\<lambda>u. u_id u = s_user_id ses) (users s) = Some adm"
  shows "getUserFromSession rq s = Some (u_id adm, role adm)"
  using assms by (simp add: getUserFromSession_def)

lemma deleteUser_seed_any_caller:
  "(\<forall>m. fst (deleteUser rq 1 s) \<noteq> Returned (Success m)) \<and> users (snd (deleteUser rq 1 s)) = users s"
  by (auto simp: deleteUser_def admin_gate_def log_write_def split: option.splits)

lemma updateUserProfile_seed_any_caller:
  "pu_role up = Some RoleUser \<Longrightarrow>
   (\<forall>m. fst (updateUserProfile e rq 1 up s) \<noteq> Returned (Success m))
   \<and> users (snd (updateUserProfile e rq 1 up s)) = users s"
  by (auto simp: updateUserProfile_def admin_gate_def log_write_def split: option.splits)

lemma seed_admin_is_admin:
  "seed_admin_present s \<Longrightarrow> \<exists>u \<in> set (users s). role u = RoleAdmin"
  by (auto simp: seed_admin_present_def has_seed_admin_def)

lemma admin_session_protection:
  assumes cookie: "session_cookie rq = Some tok" "tok \<noteq> []"
    and ses: "find (\<lambda>x. session_id x = tok \<and> unexpired (now rq) (expires_at x)) (sessions s)
               = Some ses"
    and adm: "find (\<lambda>u. u_id u = s_user_id ses) (users s) = Some adm" "role adm = RoleAdmin"
  shows "deleteUser rq (u_id adm) s = (Returned (Failure CannotDeleteSelf), s)"
    and "u_id adm \<noteq> 1 \<Longrightarrow> deleteUser rq 1 s = (Returned (Failure CannotDeleteSeedAdmin), s)"
    and "pu_role up = Some RoleUser \<Longrightarrow>
         (case pu_username up of None \<Rightarrow> True | Some n \<Rightarrow> 3 \<le> length n) \<Longrightarrow>
         (case pu_email up of None \<Rightarrow> True | Some m \<Rightarrow> valid_email e m) \<Longrightarrow>
         updateUserProfile e rq (u_id adm) up s = (Returned (Failure CannotChangeOwnRole), s)"
    and "pu_role up = Some RoleUser \<Longrightarrow>
         (case pu_username up of None \<Rightarrow> True | Some n \<Rightarrow> 3 \<le> length n) \<Longrightarrow>
         (case pu_email up of None \<Rightarrow> True | Some m \<Rightarrow> valid_email e m) \<Longrightarrow>
         u_id adm \<noteq> 1 \<Longrightarrow>
         updateUserProfile e rq 1 up s = (Returned (Failure CannotChangeSeedAdminRole), s)"
proof -
  have g: "getUserFromSession rq s = Some (u_id adm, RoleAdmin)"
    using getUserFromSession_row [OF cookie ses adm(1)] adm(2) by simp
  show "deleteUser rq (u_id adm) s = (Returned (Failure CannotDeleteSelf), s)"
    by (simp add: deleteUser_def admin_gate_def g)
  show "u_id adm \<noteq> 1 \<Longrightarrow> deleteUser rq 1 s = (Returned (Failure CannotDeleteSeedAdmin), s)"
    by (simp add: deleteUser_def admin_gate_def g)
  show "pu_role up = Some RoleUser \<Longrightarrow>
         (case pu_username up of None \<Rightarrow> True | Some n \<Rightarrow> 3 \<le> length n) \<Longrightarrow>
         (case pu_email up of None \<Rightarrow> True | Some m \<Rightarrow> valid_email e m) \<Longrightarrow>
         updateUserProfile e rq (u_id adm) up s = (Returned (Failure CannotChangeOwnRole), s)"
    by (simp add: updateUserProfile_def admin_gate_def g)
  show "pu_role up = Some RoleUser \<Longrightarrow>
         (case pu_username up of None \<Rightarrow> True | Some n \<Rightarrow> 3 \<le> length n) \<Longrightarrow>
         (case pu_email up of None \<Rightarrow> True | Some m \<Rightarrow> valid_email e m) \<Longrightarrow>
         u_id adm \<noteq> 1 \<Longrightarrow>
         updateUserProfile e rq 1 up s = (Returned (Failure CannotChangeSeedAdminRole), s)"
    by (simp add: updateUserProfile_def admin_gate_def g)
qed

text \<open>
  C9. The seed admin (id 1) and the calling admin are protected.
  Whoever the caller of a request \<open>rq2\<close> is, \<^verbatim>\<open>deleteUser\<close> never succeeds against
  id 1 and leaves the users as they are, and so does \<^verbatim>\<open>updateUserProfile\<close> with a
  change of role away from admin.
  For a request \<open>rq\<close> that carries the unexpired session of an admin \<open>adm\<close>:
  \<^verbatim>\<open>deleteUser\<close> fails for the caller's own id and for id 1, and
  \<^verbatim>\<open>updateUserProfile\<close> rejects a change of role away from admin for those two
  targets, each with its own error and with the state as it was.
  And no sequence \<open>ops\<close> of operations of the user module (login, logout, register,
  status, password reset, profile, delete, own profile) removes the seed admin or takes
  the admin role from it: an admin account always remains.
\<close>

theorem seed_admin_and_self_protected:
  "(\<forall>m. fst (deleteUser rq2 1 s) \<noteq> Returned (Success m))
   \<and> users (snd (deleteUser rq2 1 s)) = users s
   \<and> (pu_role up = Some RoleUser \<longrightarrow>
        (\<forall>m. fst (updateUserProfile e rq2 1 up s) \<noteq> Returned (Success m))
        \<and> users (snd (updateUserProfile e rq2 1 up s)) = users s)
   \<and> (session_cookie rq = Some tok \<and> tok \<noteq> []
        \<and> find (\<lambda>x. session_id x = tok \<and> unexpired (now rq) (expires_at x)) (sessions s)
             = Some ses
        \<and> find (\<lambda>u. u_id u = s_user_id ses) (users s) = Some adm \<and> role adm = RoleAdmin
      \<longrightarrow>
        deleteUser rq (u_id adm) s = (Returned (Failure CannotDeleteSelf), s)
        \<and> (u_id adm \<noteq> 1 \<longrightarrow>
             deleteUser rq 1 s = (Returned (Failure CannotDeleteSeedAdmin), s))
        \<and> (pu_role up = Some RoleUser
             \<and> (case pu_username up of None \<Rightarrow> True | Some n \<Rightarrow> 3 \<le> length n)
             \<and> (case pu_email up of None \<Rightarrow> True | Some m \<Rightarrow> valid_email e m)
           \<longrightarrow>
             updateUserProfile e rq (u_id adm) up s = (Returned (Failure CannotChangeOwnRole), s)
             \<and> (u_id adm \<noteq> 1 \<longrightarrow>
                  updateUserProfile e rq 1 up s
                    = (Returned (Failure CannotChangeSeedAdminRole), s))))
   \<and> (seed_admin_present s \<longrightarrow>
        seed_admin_present (user_run e ops s)
        \<and> (\<exists>u \<in> set (users (user_run e ops s)). role u = RoleAdmin))"
proof -
  have f: "seed_admin_present s \<longrightarrow>
            seed_admin_present (user_run e ops s)
            \<and> (\<exists>u \<in> set (users (user_run e ops s)). role u = RoleAdmin)"
    using seed_user_run seed_admin_is_admin by blast
  have g: "pu_role up = Some RoleUser \<longrightarrow>
        (\<forall>m. fst (updateUserProfile e rq2 1 up s) \<noteq> Returned (Success m))
        \<and> users (snd (updateUserProfile e rq2 1 up s)) = users s"
    using updateUserProfile_seed_any_caller [of up e rq2 s] by blast
  have h: "session_cookie rq = Some tok \<and> tok \<noteq> []
        \<and> find (\<lambda>x. session_id x = tok \<and> unexpired (now rq) (expires_at x)) (sessions s)
             = Some ses
        \<and> find (\<lambda>u. u_id u = s_user_id ses) (users s) = Some adm \<and> role adm = RoleAdmin
      \<longrightarrow>
        deleteUser rq (u_id adm) s = (Returned (Failure CannotDeleteSelf), s)
        \<and> (u_id adm \<noteq> 1 \<longrightarrow>
             deleteUser rq 1 s = (Returned (Failure CannotDeleteSeedAdmin), s))
        \<and> (pu_role up = Some RoleUser
             \<and> (case pu_username up of None \<Rightarrow> True | Some n \<Rightarrow> 3 \<le> length n)
             \<and> (case pu_email up of None \<Rightarrow> True | Some m \<Rightarrow> valid_email e m)
           \<longrightarrow>
             updateUserProfile e rq (u_id adm) up s = (Returned (Failure CannotChangeOwnRole), s)
             \<and> (u_id adm \<noteq> 1 \<longrightarrow>
                  updateUserProfile e rq 1 up s
                    = (Returned (Failure CannotChangeSeedAdminRole), s)))"
    using admin_session_protection [of rq tok s ses adm] by blast
  show ?thesis
    using deleteUser_seed_any_caller [of rq2 s] g h f by blast
qed

theorem seed_admin_and_self_protected_witness:
  "session_cookie (request0 ''tok-dave'') = Some ''tok-dave''
   \<and> find (\<lambda>x. session_id x = ''tok-dave'' \<and> unexpired (now (request0 ''tok-dave'')) (expires_at x))
         (sessions two_admins0) = Some (session_of ''tok-dave'' 4 1000)
   \<and> find (\<lambda>u. u_id u = s_user_id (session_of ''tok-dave'' 4 1000)) (users two_admins0)
        = Some (dave0\<lparr>role := RoleAdmin\<rparr>)
   \<and> pu_role demotion = Some RoleUser
   \<and> seed_admin_present two_admins0
   \<and> deleteUser (request0 ''tok-dave'') 4 two_admins0
        = (Returned (Failure CannotDeleteSelf), two_admins0)
   \<and> deleteUser (request0 ''tok-dave'') 1 two_admins0
        = (Returned (Failure CannotDeleteSeedAdmin), two_admins0)
   \<and> updateUserProfile env0 (request0 ''tok-dave'') 4 demotion two_admins0
        = (Returned (Failure CannotChangeOwnRole), two_admins0)
   \<and> updateUserProfile env0 (request0 ''tok-dave'') 1 demotion two_admins0
        = (Returned (Failure CannotChangeSeedAdminRole), two_admins0)
   \<and> seed_admin_present
        (user_run env0
           [DeleteUser (request0 ''tok-dave'') 1,
            UpdateProfile (request0 ''tok-dave'') 1 demotion,
            DeleteUser (request0 ''tok-dave'') 2,
            UpdateStatus (request0 ''tok-dave'') 1 Inactive] two_admins0)"
proof -
  let ?rq = "request0 ''tok-dave''"
  let ?ops = "[DeleteUser ?rq 1, UpdateProfile ?rq 1 demotion, DeleteUser ?rq 2,
               UpdateStatus ?rq 1 Inactive]"
  have c1: "session_cookie ?rq = Some ''tok-dave''" by (simp add: request0_sel)
  have c2: "''tok-dave'' \<noteq> []" by simp
  have s1: "find (\<lambda>x. session_id x = ''tok-dave'' \<and> unexpired (now ?rq) (expires_at x))
         (sessions two_admins0) = Some (session_of ''tok-dave'' 4 1000)"
    by (simp add: two_admins0_def state0_sel request0_sel session_of_def unexpired_def utc_day_def)
  have u1: "find (\<lambda>u. u_id u = s_user_id (session_of ''tok-dave'' 4 1000)) (users two_admins0)
        = Some (dave0\<lparr>role := RoleAdmin\<rparr>)"
    by (simp add: two_admins0_def rows0)
  have r1: "role (dave0\<lparr>role := RoleAdmin\<rparr>) = RoleAdmin" by simp
  have d1: "pu_role demotion = Some RoleUser" by (simp add: demotion_def)
  have v1: "case pu_username demotion of None \<Rightarrow> True | Some n \<Rightarrow> 3 \<le> length n"
    by (simp add: demotion_def)
  have v2: "case pu_email demotion of None \<Rightarrow> True | Some m \<Rightarrow> valid_email env0 m"
    by (simp add: demotion_def)
  have seed: "seed_admin_present two_admins0"
    by (simp add: seed_admin_present_def has_seed_admin_def two_admins0_def rows0)
  have id4: "u_id (dave0\<lparr>role := RoleAdmin\<rparr>) = 4" by (simp add: dave0_def)
  note th = seed_admin_and_self_protected
      [of ?rq two_admins0 demotion env0 ?rq "''tok-dave''" "session_of ''tok-dave'' 4 1000"
          "dave0\<lparr>role := RoleAdmin\<rparr>" ?ops]
  note sess = th [THEN conjunct2, THEN conjunct2, THEN conjunct2, THEN conjunct1, rule_format,
      OF conjI [OF c1 conjI [OF c2 conjI [OF s1 conjI [OF u1 r1]]]]]
  note prof = sess [THEN conjunct2, THEN conjunct2, rule_format,
      OF conjI [OF d1 conjI [OF v1 v2]]]
  have a: "deleteUser ?rq 4 two_admins0 = (Returned (Failure CannotDeleteSelf), two_admins0)"
    using sess [THEN conjunct1] by (simp only: id4)
  have b: "deleteUser ?rq 1 two_admins0 = (Returned (Failure CannotDeleteSeedAdmin), two_admins0)"
    using sess [THEN conjunct2, THEN conjunct1] by (simp only: id4)
  have c: "updateUserProfile env0 ?rq 4 demotion two_admins0
      = (Returned (Failure CannotChangeOwnRole), two_admins0)"
    using prof [THEN conjunct1] by (simp only: id4)
  have d: "updateUserProfile env0 ?rq 1 demotion two_admins0
      = (Returned (Failure CannotChangeSeedAdminRole), two_admins0)"
    using prof [THEN conjunct2] by (simp only: id4)
  have f: "seed_admin_present (user_run env0 ?ops two_admins0)"
    using th [THEN conjunct2, THEN conjunct2, THEN conjunct2, THEN conjunct2] seed by blast
  show ?thesis by (intro conjI c1 s1 u1 d1 seed a b c d f)
qed

end
